theory Spec2Isabelle
  imports Main "HOL-Library.Monad_Syntax"
begin

section \<open>Preprocessing tokens\<close>

text \<open>
  \<^verbatim>\<open>windres/resource.h\<close> is a header of object-like and function-like macros. Its
  meaning is what the C preprocessor makes of it, so the model works on sequences of
  preprocessing tokens. A string literal and a character constant carry their spelling
  between the quotes exactly as written in the source (escape sequences not yet
  interpreted), because the \<^verbatim>\<open>#\<close> operator works on spellings.
\<close>

datatype pp_token =
    Identifier string
  | PP_number string
  | Character_constant string
  | String_literal string
  | Punctuator string
  | White_space

definition backslash :: char where
  "backslash = CHR 0x5C"

definition double_quote :: char where
  "double_quote = CHR 0x22"

definition single_quote :: char where
  "single_quote = CHR 0x27"

definition NUL :: char where
  "NUL = CHR 0x00"

subsection \<open>The \<^verbatim>\<open>#\<close> operator\<close>

text \<open>
  Stringification: white space before the first and after the last token of the argument
  is deleted, each run of white space between tokens becomes one space, every token keeps
  its spelling, and inside string literals and character constants a backslash is put
  before each double quote and each backslash (the delimiting double quotes included).
\<close>

fun is_space :: "pp_token \<Rightarrow> bool" where
  "is_space White_space = True"
| "is_space _ = False"

definition trim :: "pp_token list \<Rightarrow> pp_token list" where
  "trim ts = rev (dropWhile is_space (rev (dropWhile is_space ts)))"

fun squeeze :: "pp_token list \<Rightarrow> pp_token list" where
  "squeeze (White_space # White_space # ts) = squeeze (White_space # ts)"
| "squeeze (t # ts) = t # squeeze ts"
| "squeeze [] = []"

definition escape_quoted :: "string \<Rightarrow> string" where
  "escape_quoted s =
     concat (map (\<lambda>c. if c = double_quote \<or> c = backslash then [backslash, c] else [c]) s)"

fun spelling_in_string :: "pp_token \<Rightarrow> string" where
  "spelling_in_string (Identifier s) = s"
| "spelling_in_string (PP_number s) = s"
| "spelling_in_string (Punctuator s) = s"
| "spelling_in_string White_space = '' ''"
| "spelling_in_string (String_literal s) =
     [backslash, double_quote] @ escape_quoted s @ [backslash, double_quote]"
| "spelling_in_string (Character_constant s) =
     [single_quote] @ escape_quoted s @ [single_quote]"

definition stringify :: "pp_token list \<Rightarrow> string" where
  "stringify ts = concat (map spelling_in_string (squeeze (trim ts)))"

text \<open>\<^verbatim>\<open>#define ZBX_STR2(str) #str\<close>\<close>

definition ZBX_STR2 :: "pp_token list \<Rightarrow> pp_token list" where
  "ZBX_STR2 str = [String_literal (stringify str)]"

text \<open>
  \<^verbatim>\<open>#define ZBX_STR(str) ZBX_STR2(str)\<close>. The parameter is not an operand of
  \<^verbatim>\<open>#\<close> here, so the argument is macro-expanded first, and the expansion stands
  between the parentheses of \<^verbatim>\<open>ZBX_STR2(\<close> ... \<^verbatim>\<open>)\<close> when that invocation is
  found on rescanning. The argument of \<^verbatim>\<open>ZBX_STR2\<close> is then collected from these
  tokens: it ends at the first right parenthesis that closes no left parenthesis of the
  argument, which is the one of the replacement list unless the expansion holds an
  unmatched right parenthesis of its own; the tokens after it stay behind the string. A
  comma outside parentheses would start a second argument, which the macro does not take,
  and an unmatched left parenthesis would let the argument run on into the tokens that
  follow in the source file, which the macro table does not give: in both cases there is
  no result (\<open>None\<close>).
\<close>

fun macro_argument ::
  "nat \<Rightarrow> pp_token list \<Rightarrow> pp_token list \<Rightarrow> (pp_token list \<times> pp_token list) option" where
  "macro_argument depth seen [] = None"
| "macro_argument depth seen (Punctuator p # ts) =
     (if depth = 0 \<and> p = '')'' then Some (seen, ts)
      else if depth = 0 \<and> p = '','' then None
      else macro_argument
             (if p = ''('' then Suc depth else if p = '')'' then depth - 1 else depth)
             (seen @ [Punctuator p]) ts)"
| "macro_argument depth seen (t # ts) = macro_argument depth (seen @ [t]) ts"

definition ZBX_STR :: "pp_token list \<Rightarrow> pp_token list option" where
  "ZBX_STR str =
     (case macro_argument 0 [] (str @ [Punctuator '')'']) of
        None \<Rightarrow> None
      | Some (argument, rest) \<Rightarrow> Some (ZBX_STR2 argument @ rest))"

subsection \<open>The value of a string literal\<close>

text \<open>
  The characters a string literal denotes: simple, octal and hexadecimal escape sequences
  are replaced, one state per kind of sequence under way. An unknown escape sequence, a
  backslash at the end and a value that does not fit a byte give no value.
\<close>

datatype escape_state = Plain | Escaped | Octal nat nat | Hex_start | Hex nat

definition octal_digit :: "char \<Rightarrow> nat option" where
  "octal_digit c = map_of (zip ''01234567'' [0, 1, 2, 3, 4, 5, 6, 7]) c"

definition hex_digit :: "char \<Rightarrow> nat option" where
  "hex_digit c =
     map_of (zip ''0123456789abcdefABCDEF''
                 [0, 1, 2, 3, 4, 5, 6, 7, 8, 9, 10, 11, 12, 13, 14, 15, 10, 11, 12, 13, 14, 15]) c"

definition simple_escape :: "char \<Rightarrow> char option" where
  "simple_escape c =
     map_of [(single_quote, single_quote), (double_quote, double_quote),
             (CHR ''?'', CHR ''?''), (backslash, backslash),
             (CHR ''a'', CHR 0x07), (CHR ''b'', CHR 0x08), (CHR ''f'', CHR 0x0C),
             (CHR ''n'', CHR 0x0A), (CHR ''r'', CHR 0x0D), (CHR ''t'', CHR 0x09),
             (CHR ''v'', CHR 0x0B)] c"

definition emit :: "nat \<Rightarrow> string option \<Rightarrow> string option" where
  "emit v rest = (if v < 256 then map_option ((#) (char_of v)) rest else None)"

fun unescape_from :: "escape_state \<Rightarrow> string \<Rightarrow> string option" where
  "unescape_from Plain [] = Some []"
| "unescape_from Plain (c # cs) =
     (if c = backslash then unescape_from Escaped cs
      else map_option ((#) c) (unescape_from Plain cs))"
| "unescape_from Escaped [] = None"
| "unescape_from Escaped (c # cs) =
     (case octal_digit c of
        Some d \<Rightarrow> unescape_from (Octal d 1) cs
      | None \<Rightarrow>
          if c = CHR ''x'' then unescape_from Hex_start cs
          else (case simple_escape c of
                  Some v \<Rightarrow> map_option ((#) v) (unescape_from Plain cs)
                | None \<Rightarrow> None))"
| "unescape_from (Octal v k) [] = emit v (Some [])"
| "unescape_from (Octal v k) (c # cs) =
     (case (if k < 3 then octal_digit c else None) of
        Some d \<Rightarrow> unescape_from (Octal (8 * v + d) (Suc k)) cs
      | None \<Rightarrow>
          emit v (if c = backslash then unescape_from Escaped cs
                  else map_option ((#) c) (unescape_from Plain cs)))"
| "unescape_from Hex_start [] = None"
| "unescape_from Hex_start (c # cs) =
     (case hex_digit c of Some d \<Rightarrow> unescape_from (Hex d) cs | None \<Rightarrow> None)"
| "unescape_from (Hex v) [] = emit v (Some [])"
| "unescape_from (Hex v) (c # cs) =
     (case hex_digit c of
        Some d \<Rightarrow> unescape_from (Hex (16 * v + d)) cs
      | None \<Rightarrow>
          emit v (if c = backslash then unescape_from Escaped cs
                  else map_option ((#) c) (unescape_from Plain cs)))"

definition unescape :: "string \<Rightarrow> string option" where
  "unescape s = unescape_from Plain s"

text \<open>
  Adjacent string literals are concatenated, each after its escape sequences have been
  replaced. A token sequence is a string only if it holds at least one string literal and
  nothing but string literals and white space.
\<close>

fun concat_literals :: "pp_token list \<Rightarrow> string option" where
  "concat_literals [] = Some []"
| "concat_literals (String_literal s # ts) =
     (case unescape s of
        None \<Rightarrow> None
      | Some a \<Rightarrow> map_option ((@) a) (concat_literals ts))"
| "concat_literals (White_space # ts) = concat_literals ts"
| "concat_literals (t # ts) = None"

definition string_value :: "pp_token list \<Rightarrow> string option" where
  "string_value ts = (if filter (\<lambda>t. \<not> is_space t) ts = [] then None else concat_literals ts)"

text \<open>
  Read as a C string, an array of characters ends at its first null character.
\<close>

definition c_string :: "string \<Rightarrow> string" where
  "c_string s = takeWhile (\<lambda>c. c \<noteq> NUL) s"

section \<open>The header \<^verbatim>\<open>windres/resource.h\<close>\<close>

text \<open>
  The header is read with some object-like macros already defined from outside (by
  \<^verbatim>\<open>-D\<close> options of the build or by the including file). A macro table maps the name
  of each such macro to its replacement list; a name outside the table is not a macro.
  Every macro of the header is a function of this table: its value is the token sequence
  the macro expands to once the body of the header has been read.

  The replacement lists of the table are taken as they are and are not scanned again for
  macro names. This is what the preprocessor yields for a replacement list in which no
  identifier names a macro, in particular for numbers and string literals, which hold no
  identifier at all; the tables built below from version components are of this kind. A
  replacement list that names another macro would be expanded further by the
  preprocessor, which the functions below do not follow.
\<close>

type_synonym macro_table = "string \<rightharpoonup> pp_token list"

text \<open>An identifier in a replacement list: replaced if it names a macro, kept otherwise.\<close>

definition expand_identifier :: "macro_table \<Rightarrow> string \<Rightarrow> pp_token list" where
  "expand_identifier defs name =
     (case defs name of None \<Rightarrow> [Identifier name] | Some body \<Rightarrow> body)"

text \<open>
  \<^verbatim>\<open>#ifndef NAME\<close> / \<^verbatim>\<open>#define NAME body\<close> / \<^verbatim>\<open>#endif\<close>: the definition from
  outside stays if there is one, else the header's own replacement list is taken.
\<close>

definition ifndef_define :: "macro_table \<Rightarrow> string \<Rightarrow> pp_token list \<Rightarrow> pp_token list" where
  "ifndef_define defs name body = (case defs name of None \<Rightarrow> body | Some given \<Rightarrow> given)"

text \<open>
  The header's replacement lists are placeholders in braces. In
  \<^verbatim>\<open>#define ZABBIX_VERSION_MAJOR {ZABBIX_VERSION_MAJOR}\<close> the identifier inside is the
  name of the macro under expansion and is therefore not replaced again.
\<close>

definition VER_FILEDESCRIPTION_STR :: "macro_table \<Rightarrow> pp_token list" where
  "VER_FILEDESCRIPTION_STR defs =
     ifndef_define defs ''VER_FILEDESCRIPTION_STR''
       [Punctuator ''{'', Identifier ''VER_FILEDESCRIPTION_STR'', Punctuator ''}'']"

definition ZABBIX_VERSION_MAJOR :: "macro_table \<Rightarrow> pp_token list" where
  "ZABBIX_VERSION_MAJOR defs =
     ifndef_define defs ''ZABBIX_VERSION_MAJOR''
       [Punctuator ''{'', Identifier ''ZABBIX_VERSION_MAJOR'', Punctuator ''}'']"

definition ZABBIX_VERSION_MINOR :: "macro_table \<Rightarrow> pp_token list" where
  "ZABBIX_VERSION_MINOR defs =
     ifndef_define defs ''ZABBIX_VERSION_MINOR''
       [Punctuator ''{'', Identifier ''ZABBIX_VERSION_MINOR'', Punctuator ''}'']"

definition ZABBIX_VERSION_PATCH :: "macro_table \<Rightarrow> pp_token list" where
  "ZABBIX_VERSION_PATCH defs =
     ifndef_define defs ''ZABBIX_VERSION_PATCH''
       [Punctuator ''{'', Identifier ''ZABBIX_VERSION_PATCH'', Punctuator ''}'']"

definition ZABBIX_VERSION_RC :: "macro_table \<Rightarrow> pp_token list" where
  "ZABBIX_VERSION_RC defs =
     ifndef_define defs ''ZABBIX_VERSION_RC''
       [Punctuator ''{'', Identifier ''ZABBIX_VERSION_RC'', Punctuator ''}'']"

text \<open>
  \<^verbatim>\<open>#define ZABBIX_VERSION_RC_NUM {ZABBIX_RC_NUM}\<close>: the placeholder names another
  identifier, \<^verbatim>\<open>ZABBIX_RC_NUM\<close>, which is replaced if it is a macro.
\<close>

definition ZABBIX_VERSION_RC_NUM :: "macro_table \<Rightarrow> pp_token list" where
  "ZABBIX_VERSION_RC_NUM defs =
     ifndef_define defs ''ZABBIX_VERSION_RC_NUM''
       ([Punctuator ''{''] @ expand_identifier defs ''ZABBIX_RC_NUM'' @ [Punctuator ''}''])"

definition ZABBIX_LICENSE_YEARS :: "macro_table \<Rightarrow> pp_token list" where
  "ZABBIX_LICENSE_YEARS defs =
     ifndef_define defs ''ZABBIX_LICENSE_YEARS''
       [Punctuator ''{'', Identifier ''ZABBIX_LICENSE_YEARS'', Punctuator ''}'']"

text \<open>
  The header uses \<^verbatim>\<open>ZABBIX_VERSION_REVISION\<close> and never defines it: there is no
  \<^verbatim>\<open>#ifndef\<close> block for it.
\<close>

definition ZABBIX_VERSION_REVISION :: "macro_table \<Rightarrow> pp_token list" where
  "ZABBIX_VERSION_REVISION defs = expand_identifier defs ''ZABBIX_VERSION_REVISION''"

text \<open>
  \<^verbatim>\<open>#define VER_FILEVERSION ZABBIX_VERSION_MAJOR,ZABBIX_VERSION_MINOR,ZABBIX_VERSION_PATCH,ZABBIX_VERSION_RC_NUM\<close>
\<close>

definition VER_FILEVERSION :: "macro_table \<Rightarrow> pp_token list" where
  "VER_FILEVERSION defs =
     ZABBIX_VERSION_MAJOR defs @ [Punctuator '','']
     @ ZABBIX_VERSION_MINOR defs @ [Punctuator '','']
     @ ZABBIX_VERSION_PATCH defs @ [Punctuator '','']
     @ ZABBIX_VERSION_RC_NUM defs"

text \<open>
  \<^verbatim>\<open>#define VER_FILEVERSION_STR ZBX_STR(ZABBIX_VERSION_MAJOR) "." ZBX_STR(ZABBIX_VERSION_MINOR) "." ZBX_STR(ZABBIX_VERSION_PATCH) "." ZBX_STR(ZABBIX_VERSION_REVISION) "\0"\<close>
\<close>

definition VER_FILEVERSION_STR :: "macro_table \<Rightarrow> pp_token list option" where
  "VER_FILEVERSION_STR defs = do {
     major_str \<leftarrow> ZBX_STR (ZABBIX_VERSION_MAJOR defs);
     minor_str \<leftarrow> ZBX_STR (ZABBIX_VERSION_MINOR defs);
     patch_str \<leftarrow> ZBX_STR (ZABBIX_VERSION_PATCH defs);
     revision_str \<leftarrow> ZBX_STR (ZABBIX_VERSION_REVISION defs);
     Some (major_str @ [White_space, String_literal ''.'', White_space]
           @ minor_str @ [White_space, String_literal ''.'', White_space]
           @ patch_str @ [White_space, String_literal ''.'', White_space]
           @ revision_str @ [White_space, String_literal [backslash, CHR ''0'']])
   }"

text \<open>
  \<^verbatim>\<open>#define VER_PRODUCTVERSION ZABBIX_VERSION_MAJOR,ZABBIX_VERSION_MINOR,ZABBIX_VERSION_PATCH\<close>
\<close>

definition VER_PRODUCTVERSION :: "macro_table \<Rightarrow> pp_token list" where
  "VER_PRODUCTVERSION defs =
     ZABBIX_VERSION_MAJOR defs @ [Punctuator '','']
     @ ZABBIX_VERSION_MINOR defs @ [Punctuator '','']
     @ ZABBIX_VERSION_PATCH defs"

text \<open>
  \<^verbatim>\<open>#define VER_PRODUCTVERSION_STR ZBX_STR(ZABBIX_VERSION_MAJOR) "." ZBX_STR(ZABBIX_VERSION_MINOR) "." ZBX_STR(ZABBIX_VERSION_PATCH) ZABBIX_VERSION_RC "\0"\<close>
\<close>

definition VER_PRODUCTVERSION_STR :: "macro_table \<Rightarrow> pp_token list option" where
  "VER_PRODUCTVERSION_STR defs = do {
     major_str \<leftarrow> ZBX_STR (ZABBIX_VERSION_MAJOR defs);
     minor_str \<leftarrow> ZBX_STR (ZABBIX_VERSION_MINOR defs);
     patch_str \<leftarrow> ZBX_STR (ZABBIX_VERSION_PATCH defs);
     Some (major_str @ [White_space, String_literal ''.'', White_space]
           @ minor_str @ [White_space, String_literal ''.'', White_space]
           @ patch_str @ [White_space]
           @ ZABBIX_VERSION_RC defs @ [White_space, String_literal [backslash, CHR ''0'']])
   }"

text \<open>\<^verbatim>\<open>#define VER_COMPANYNAME_STR "Zabbix SIA\0"\<close>\<close>

definition VER_COMPANYNAME_STR :: "pp_token list" where
  "VER_COMPANYNAME_STR = [String_literal (''Zabbix SIA'' @ [backslash, CHR ''0''])]"

text \<open>
  \<^verbatim>\<open>#define VER_LEGALCOPYRIGHT_STR "Copyright (C) " ZABBIX_LICENSE_YEARS " " VER_COMPANYNAME_STR\<close>
\<close>

definition VER_LEGALCOPYRIGHT_STR :: "macro_table \<Rightarrow> pp_token list" where
  "VER_LEGALCOPYRIGHT_STR defs =
     [String_literal ''Copyright (C) '', White_space]
     @ ZABBIX_LICENSE_YEARS defs
     @ [White_space, String_literal '' '', White_space]
     @ VER_COMPANYNAME_STR"

text \<open>\<^verbatim>\<open>#define VER_PRODUCTNAME_STR "Zabbix\0"\<close>\<close>

definition VER_PRODUCTNAME_STR :: "pp_token list" where
  "VER_PRODUCTNAME_STR = [String_literal (''Zabbix'' @ [backslash, CHR ''0''])]"

subsection \<open>The descriptor\<close>

text \<open>
  The body of the header takes the macro table it is read with to the version macros a
  resource script reads from it; the specification calls this function \<open>resolve\<close> and
  its result the version descriptor. The two version strings go through
  \<^verbatim>\<open>ZBX_STR\<close> and exist only when every stringified component leaves
  \<^verbatim>\<open>ZBX_STR2\<close> with one argument.
\<close>

record VersionDescriptor =
  numericFileVersion :: "pp_token list"
  numericProductVersion :: "pp_token list"
  fileVersionString :: "pp_token list option"
  productVersionString :: "pp_token list option"
  companyName :: "pp_token list"
  productName :: "pp_token list"
  legalCopyright :: "pp_token list"

definition resolve :: "macro_table \<Rightarrow> VersionDescriptor" where
  "resolve defs =
     \<lparr> numericFileVersion = VER_FILEVERSION defs,
       numericProductVersion = VER_PRODUCTVERSION defs,
       fileVersionString = VER_FILEVERSION_STR defs,
       productVersionString = VER_PRODUCTVERSION_STR defs,
       companyName = VER_COMPANYNAME_STR,
       productName = VER_PRODUCTNAME_STR,
       legalCopyright = VER_LEGALCOPYRIGHT_STR defs \<rparr>"

text \<open>
  \<^verbatim>\<open>#ifndef _RESOURCE_H_\<close> / \<^verbatim>\<open>#define _RESOURCE_H_\<close> ... \<^verbatim>\<open>#endif\<close>: all of
  the above stands between the include guard. Read with \<^verbatim>\<open>_RESOURCE_H_\<close> already
  defined, the header is skipped as a whole and defines nothing.
\<close>

definition resource_h :: "macro_table \<Rightarrow> VersionDescriptor option" where
  "resource_h defs = (if defs ''_RESOURCE_H_'' = None then Some (resolve defs) else None)"

subsection \<open>Version components given from outside\<close>

text \<open>
  A build that supplies every component defines the five numbers as decimal integer
  tokens and the two strings as string literals, in which a backslash stands before each
  double quote and each backslash of the text.
\<close>

record VersionComponents =
  major :: nat
  minor :: nat
  patch :: nat
  releaseCandidateTag :: string
  releaseCandidateOrdinal :: nat
  revision :: nat
  licenseYears :: string

fun decimal :: "nat \<Rightarrow> string" where
  "decimal n =
     (if n < 10 then [''0123456789'' ! n]
      else decimal (n div 10) @ [''0123456789'' ! (n mod 10)])"

declare decimal.simps [simp del]

definition define_components :: "VersionComponents \<Rightarrow> macro_table" where
  "define_components c =
     [''ZABBIX_VERSION_MAJOR'' \<mapsto> [PP_number (decimal (major c))],
      ''ZABBIX_VERSION_MINOR'' \<mapsto> [PP_number (decimal (minor c))],
      ''ZABBIX_VERSION_PATCH'' \<mapsto> [PP_number (decimal (patch c))],
      ''ZABBIX_VERSION_REVISION'' \<mapsto> [PP_number (decimal (revision c))],
      ''ZABBIX_VERSION_RC'' \<mapsto> [String_literal (escape_quoted (releaseCandidateTag c))],
      ''ZABBIX_VERSION_RC_NUM'' \<mapsto> [PP_number (decimal (releaseCandidateOrdinal c))],
      ''ZABBIX_LICENSE_YEARS'' \<mapsto> [String_literal (escape_quoted (licenseYears c))]]"

text \<open>
  A build that supplies only some components: the macros whose names are in \<open>bound\<close> are
  defined as above and the others are left undefined. The header's placeholder for the
  release candidate ordinal names \<^verbatim>\<open>ZABBIX_RC_NUM\<close>, which a build may define as a
  number as well.
\<close>

definition define_some :: "string set \<Rightarrow> nat option \<Rightarrow> VersionComponents \<Rightarrow> macro_table" where
  "define_some bound rc_num c =
     (define_components c |` bound)
       (''ZABBIX_RC_NUM'' := map_option (\<lambda>n. [PP_number (decimal n)]) rc_num)"

text \<open>
  A build may also give a numeric component that is no natural number: nothing at all, a
  negative number (a minus sign and a number), or a number with a fraction (one number
  token with a decimal point).
\<close>

datatype numeric_input = Absent | Number nat | Negative nat | Fraction nat nat

fun numeric_definition :: "numeric_input \<Rightarrow> pp_token list option" where
  "numeric_definition Absent = None"
| "numeric_definition (Number n) = Some [PP_number (decimal n)]"
| "numeric_definition (Negative n) = Some [Punctuator ''-'', PP_number (decimal n)]"
| "numeric_definition (Fraction n m) = Some [PP_number (decimal n @ ''.'' @ decimal m)]"

text \<open>The text of such a component as it was written, if it was given.\<close>

fun as_written :: "numeric_input \<Rightarrow> string option" where
  "as_written Absent = None"
| "as_written (Number n) = Some (decimal n)"
| "as_written (Negative n) = Some (''-'' @ decimal n)"
| "as_written (Fraction n m) = Some (decimal n @ ''.'' @ decimal m)"

definition define_numeric ::
  "numeric_input \<Rightarrow> numeric_input \<Rightarrow> numeric_input \<Rightarrow> numeric_input \<Rightarrow> nat option
     \<Rightarrow> VersionComponents \<Rightarrow> macro_table" where
  "define_numeric major_given minor_given patch_given rc_ordinal_given rc_num c =
     (define_components c)
       (''ZABBIX_VERSION_MAJOR'' := numeric_definition major_given,
        ''ZABBIX_VERSION_MINOR'' := numeric_definition minor_given,
        ''ZABBIX_VERSION_PATCH'' := numeric_definition patch_given,
        ''ZABBIX_VERSION_RC_NUM'' := numeric_definition rc_ordinal_given,
        ''ZABBIX_RC_NUM'' := map_option (\<lambda>n. [PP_number (decimal n)]) rc_num)"

text \<open>
  The names the header defines for the version block of a resource script, with the
  macros of the components and the include guard.
\<close>

definition version_macros :: "string list" where
  "version_macros =
     [''_RESOURCE_H_'', ''ZBX_STR2'', ''ZBX_STR'',
      ''ZABBIX_VERSION_MAJOR'', ''ZABBIX_VERSION_MINOR'', ''ZABBIX_VERSION_PATCH'',
      ''ZABBIX_VERSION_REVISION'', ''ZABBIX_VERSION_RC'', ''ZABBIX_VERSION_RC_NUM'',
      ''ZABBIX_LICENSE_YEARS'',
      ''VER_FILEVERSION'', ''VER_FILEVERSION_STR'', ''VER_PRODUCTVERSION'',
      ''VER_PRODUCTVERSION_STR'', ''VER_COMPANYNAME_STR'', ''VER_LEGALCOPYRIGHT_STR'',
      ''VER_PRODUCTNAME_STR'']"

subsection \<open>Reading the resolved values\<close>

text \<open>
  A decimal integer constant is a nonzero digit followed by digits, or the single digit
  zero; its value is read digit by digit.
\<close>

definition digit_value :: "char \<Rightarrow> nat option" where
  "digit_value c = map_of (zip ''0123456789'' [0, 1, 2, 3, 4, 5, 6, 7, 8, 9]) c"

fun digits_value :: "nat \<Rightarrow> string \<Rightarrow> nat option" where
  "digits_value acc [] = Some acc"
| "digits_value acc (c # cs) =
     (case digit_value c of None \<Rightarrow> None | Some d \<Rightarrow> digits_value (10 * acc + d) cs)"

definition decimal_value :: "string \<Rightarrow> nat option" where
  "decimal_value s =
     (if s = [] \<or> (hd s = CHR ''0'' \<and> tl s \<noteq> []) then None else digits_value 0 s)"

text \<open>
  A numeric version field of a resource script is a list of integer constants with commas
  between them.
\<close>

fun numeric_tuple :: "pp_token list \<Rightarrow> nat list option" where
  "numeric_tuple [PP_number s] = map_option (\<lambda>n. [n]) (decimal_value s)"
| "numeric_tuple (PP_number s # Punctuator p # ts) =
     (if p = '','' then
        (case decimal_value s of
           None \<Rightarrow> None
         | Some n \<Rightarrow> map_option ((#) n) (numeric_tuple ts))
      else None)"
| "numeric_tuple _ = None"

text \<open>The segments of a text between occurrences of a separator character.\<close>

fun split_on :: "char \<Rightarrow> string \<Rightarrow> string list" where
  "split_on sep [] = [[]]"
| "split_on sep (c # cs) =
     (if c = sep then [] # split_on sep cs
      else (case split_on sep cs of [] \<Rightarrow> [[c]] | s # ss \<Rightarrow> (c # s) # ss))"

section \<open>Auxiliary facts\<close>

lemma char_of_0: "char_of (0::nat) = NUL"
  by (simp add: NUL_def char_of_def)

lemma digit_nth: "n < 10 \<Longrightarrow> ''0123456789'' ! n \<in> set ''0123456789''"
  by (rule nth_mem) simp

lemma decimal_digits: "set (decimal n) \<subseteq> set ''0123456789''"
proof (induction n rule: decimal.induct)
  case (1 n)
  show ?case
  proof (cases "n < 10")
    case True
    then show ?thesis using digit_nth [of n] by (subst decimal.simps) simp
  next
    case False
    have "n mod 10 < 10" by simp
    then have "''0123456789'' ! (n mod 10) \<in> set ''0123456789''" by (rule digit_nth)
    with False 1 show ?thesis by (subst decimal.simps) simp
  qed
qed

lemma decimal_no_char:
  assumes "c \<notin> set ''0123456789''"
  shows "c \<notin> set (decimal n)"
  using assms decimal_digits [of n] by blast

lemma decimal_no_backslash: "backslash \<notin> set (decimal n)"
  by (rule decimal_no_char) (simp add: backslash_def)

lemma decimal_no_NUL: "NUL \<notin> set (decimal n)"
  by (rule decimal_no_char) (simp add: NUL_def)

lemma decimal_no_dot: "CHR ''.'' \<notin> set (decimal n)"
  by (rule decimal_no_char) simp

lemma unescape_plain: "backslash \<notin> set s \<Longrightarrow> unescape_from Plain s = Some s"
  by (induction s) auto

lemma unescape_escape_quoted: "unescape_from Plain (escape_quoted s @ r) = map_option ((@) s) (unescape_from Plain r)"
proof (induction s)
  case Nil
  show ?case by (simp add: escape_quoted_def option.map_ident)
next
  case (Cons c s)
  have od: "octal_digit backslash = None" "octal_digit double_quote = None"
    by (simp_all add: octal_digit_def backslash_def double_quote_def)
  have se: "simple_escape backslash = Some backslash" "simple_escape double_quote = Some double_quote"
    by (simp_all add: simple_escape_def backslash_def double_quote_def single_quote_def)
  have nx: "backslash \<noteq> CHR ''x''" "double_quote \<noteq> CHR ''x''" "double_quote \<noteq> backslash"
    by (simp_all add: backslash_def double_quote_def)
  from Cons have IH: "unescape_from Plain (concat (map (\<lambda>c. if c = double_quote \<or> c = backslash then [backslash, c] else [c]) s) @ r) = map_option ((@) s) (unescape_from Plain r)"
    by (simp add: escape_quoted_def)
  show ?case
    by (simp add: escape_quoted_def IH od se nx option.map_comp comp_def)
qed

lemma digit_value_nth: "d < 10 \<Longrightarrow> digit_value (''0123456789'' ! d) = Some d"
proof -
  assume "d < 10"
  then have "d \<in> {0, 1, 2, 3, 4, 5, 6, 7, 8, 9}" by auto
  then show ?thesis by (auto simp: digit_value_def)
qed

lemma digits_value_append:
  "digits_value acc (xs @ ys) =
     (case digits_value acc xs of None \<Rightarrow> None | Some v \<Rightarrow> digits_value v ys)"
  by (induction xs arbitrary: acc) (auto split: option.splits)

lemma digits_value_decimal: "digits_value 0 (decimal n) = Some n"
proof (induction n rule: decimal.induct)
  case (1 n)
  show ?case
  proof (cases "n < 10")
    case True
    then show ?thesis by (subst decimal.simps) (simp add: digit_value_nth)
  next
    case False
    with 1 have "digits_value 0 (decimal (n div 10)) = Some (n div 10)" by simp
    with False show ?thesis
      by (subst decimal.simps) (simp add: digits_value_append digit_value_nth)
  qed
qed

lemma decimal_not_Nil: "decimal n \<noteq> []"
  by (subst decimal.simps) simp

lemma nth_zero_digit: "d < 10 \<Longrightarrow> ''0123456789'' ! d = CHR ''0'' \<Longrightarrow> d = 0"
proof -
  assume "d < 10" and z: "''0123456789'' ! d = CHR ''0''"
  then have "d \<in> {0, 1, 2, 3, 4, 5, 6, 7, 8, 9}" by auto
  with z show ?thesis by auto
qed

lemma hd_decimal: "0 < n \<Longrightarrow> hd (decimal n) \<noteq> CHR ''0''"
proof (induction n rule: decimal.induct)
  case (1 n)
  show ?case
  proof (cases "n < 10")
    case True
    with "1.prems" show ?thesis
      using nth_zero_digit [of n] by (subst decimal.simps) auto
  next
    case False
    then have "0 < n div 10" by (simp add: div_greater_zero_iff)
    with 1 False have "hd (decimal (n div 10)) \<noteq> CHR ''0''" by simp
    with False show ?thesis
      by (subst decimal.simps) (simp add: decimal_not_Nil)
  qed
qed

lemma decimal_0: "decimal 0 = ''0''"
  by (subst decimal.simps) simp

lemma decimal_value_decimal: "decimal_value (decimal n) = Some n"
proof (cases "n = 0")
  case True
  then show ?thesis by (simp add: decimal_0 decimal_value_def digit_value_def)
next
  case False
  then have "hd (decimal n) \<noteq> CHR ''0''" by (simp add: hd_decimal)
  then show ?thesis by (simp add: decimal_value_def decimal_not_Nil digits_value_decimal)
qed

lemma split_on_no_sep: "sep \<notin> set s \<Longrightarrow> split_on sep s = [s]"
  by (induction s) auto

lemma split_on_append: "sep \<notin> set s \<Longrightarrow> split_on sep (s @ sep # r) = s # split_on sep r"
  by (induction s) auto

lemma c_string_prefix: "NUL \<notin> set s \<Longrightarrow> c_string (s @ r) = s @ c_string r"
  by (induction s) (auto simp: c_string_def)

lemma c_string_NUL: "c_string (NUL # r) = []"
  by (simp add: c_string_def)

lemma c_string_terminated: "c_string (s @ [NUL]) = c_string s"
  by (induction s) (auto simp: c_string_def)

lemma ZBX_STR_number: "ZBX_STR [PP_number s] = Some [String_literal s]"
  by (simp add: ZBX_STR_def ZBX_STR2_def stringify_def trim_def)

lemma defined_MAJOR: "ZABBIX_VERSION_MAJOR (define_components c) = [PP_number (decimal (major c))]"
  by (simp add: ZABBIX_VERSION_MAJOR_def ifndef_define_def define_components_def)
lemma defined_MINOR: "ZABBIX_VERSION_MINOR (define_components c) = [PP_number (decimal (minor c))]"
  by (simp add: ZABBIX_VERSION_MINOR_def ifndef_define_def define_components_def)
lemma defined_PATCH: "ZABBIX_VERSION_PATCH (define_components c) = [PP_number (decimal (patch c))]"
  by (simp add: ZABBIX_VERSION_PATCH_def ifndef_define_def define_components_def)
lemma defined_REVISION: "ZABBIX_VERSION_REVISION (define_components c) = [PP_number (decimal (revision c))]"
  by (simp add: ZABBIX_VERSION_REVISION_def expand_identifier_def define_components_def)
lemma defined_RC: "ZABBIX_VERSION_RC (define_components c) = [String_literal (escape_quoted (releaseCandidateTag c))]"
  by (simp add: ZABBIX_VERSION_RC_def ifndef_define_def define_components_def)
lemma defined_RC_NUM: "ZABBIX_VERSION_RC_NUM (define_components c) = [PP_number (decimal (releaseCandidateOrdinal c))]"
  by (simp add: ZABBIX_VERSION_RC_NUM_def ifndef_define_def define_components_def)
lemma defined_LICENSE_YEARS: "ZABBIX_LICENSE_YEARS (define_components c) = [String_literal (escape_quoted (licenseYears c))]"
  by (simp add: ZABBIX_LICENSE_YEARS_def ifndef_define_def define_components_def)

lemma unescape_dot: "unescape ''.'' = Some ''.''"
  by (simp add: unescape_def backslash_def)

lemma unescape_NUL: "unescape [backslash, CHR ''0''] = Some [NUL]"
  by (simp add: unescape_def octal_digit_def emit_def char_of_0)

lemma unescape_decimal: "unescape (decimal n) = Some (decimal n)"
  by (simp add: unescape_def unescape_plain decimal_no_backslash)

lemma unescape_quoted: "unescape (escape_quoted s) = Some s"
  using unescape_escape_quoted [of s "[]"] by (simp add: unescape_def)

lemma unescape_terminated:
  "backslash \<notin> set s \<Longrightarrow> unescape (s @ [backslash, CHR ''0'']) = Some (s @ [NUL])"
  by (induction s) (auto simp: unescape_def octal_digit_def emit_def char_of_0)

lemma file_version_tokens:
  "VER_FILEVERSION_STR (define_components c) =
     Some [String_literal (decimal (major c)), White_space, String_literal ''.'', White_space,
           String_literal (decimal (minor c)), White_space, String_literal ''.'', White_space,
           String_literal (decimal (patch c)), White_space, String_literal ''.'', White_space,
           String_literal (decimal (revision c)), White_space,
           String_literal [backslash, CHR ''0'']]"
  by (simp add: VER_FILEVERSION_STR_def defined_MAJOR defined_MINOR defined_PATCH
      defined_REVISION ZBX_STR_number)

lemma file_version_value:
  "VER_FILEVERSION_STR (define_components c) \<bind> string_value =
     Some (decimal (major c) @ ''.'' @ decimal (minor c) @ ''.'' @ decimal (patch c) @ ''.''
           @ decimal (revision c) @ [NUL])"
  by (simp add: file_version_tokens string_value_def unescape_dot unescape_NUL unescape_decimal)

lemma product_version_tokens:
  "VER_PRODUCTVERSION_STR (define_components c) =
     Some [String_literal (decimal (major c)), White_space, String_literal ''.'', White_space,
           String_literal (decimal (minor c)), White_space, String_literal ''.'', White_space,
           String_literal (decimal (patch c)), White_space,
           String_literal (escape_quoted (releaseCandidateTag c)), White_space,
           String_literal [backslash, CHR ''0'']]"
  by (simp add: VER_PRODUCTVERSION_STR_def defined_MAJOR defined_MINOR defined_PATCH
      defined_RC ZBX_STR_number)

lemma product_version_value:
  "VER_PRODUCTVERSION_STR (define_components c) \<bind> string_value =
     Some (decimal (major c) @ ''.'' @ decimal (minor c) @ ''.'' @ decimal (patch c)
           @ releaseCandidateTag c @ [NUL])"
  by (simp add: product_version_tokens string_value_def unescape_dot unescape_NUL
      unescape_decimal unescape_quoted)

lemma company_name_value: "string_value VER_COMPANYNAME_STR = Some (''Zabbix SIA'' @ [NUL])"
  using unescape_terminated [of "''Zabbix SIA''"]
  by (simp add: VER_COMPANYNAME_STR_def string_value_def backslash_def)

lemma product_name_value: "string_value VER_PRODUCTNAME_STR = Some (''Zabbix'' @ [NUL])"
  using unescape_terminated [of "''Zabbix''"]
  by (simp add: VER_PRODUCTNAME_STR_def string_value_def backslash_def)

lemma unescape_copyright: "unescape ''Copyright (C) '' = Some ''Copyright (C) ''"
  by (simp add: unescape_def unescape_plain backslash_def)

lemma unescape_blank: "unescape '' '' = Some '' ''"
  by (simp add: unescape_def unescape_plain backslash_def)

lemma legal_copyright_value:
  "string_value (VER_LEGALCOPYRIGHT_STR (define_components c)) =
     Some (''Copyright (C) '' @ licenseYears c @ '' '' @ ''Zabbix SIA'' @ [NUL])"
  using unescape_terminated [of "''Zabbix SIA''"]
  by (simp add: VER_LEGALCOPYRIGHT_STR_def VER_COMPANYNAME_STR_def defined_LICENSE_YEARS
      string_value_def unescape_copyright unescape_blank unescape_quoted backslash_def)

lemma dotted4_segments:
  "split_on (CHR ''.'') (decimal a @ ''.'' @ decimal b @ ''.'' @ decimal c @ ''.'' @ decimal d) =
     [decimal a, decimal b, decimal c, decimal d]"
  using split_on_append [of "CHR ''.''" "decimal a" "decimal b @ ''.'' @ decimal c @ ''.'' @ decimal d"]
    split_on_append [of "CHR ''.''" "decimal b" "decimal c @ ''.'' @ decimal d"]
    split_on_append [of "CHR ''.''" "decimal c" "decimal d"]
    split_on_no_sep [of "CHR ''.''" "decimal d"]
  by (simp add: decimal_no_dot)

lemma dotted4_c_string:
  "c_string (decimal a @ ''.'' @ decimal b @ ''.'' @ decimal c @ ''.'' @ decimal d @ [NUL]) =
     decimal a @ ''.'' @ decimal b @ ''.'' @ decimal c @ ''.'' @ decimal d"
proof -
  have "NUL \<notin> set (decimal a @ ''.'' @ decimal b @ ''.'' @ decimal c @ ''.'' @ decimal d)"
    by (simp add: decimal_no_NUL) (simp add: NUL_def)
  then show ?thesis
    using c_string_prefix [of "decimal a @ ''.'' @ decimal b @ ''.'' @ decimal c @ ''.'' @ decimal d" "[NUL]"]
    by (simp add: c_string_NUL)
qed

lemma dotted3_c_string:
  "c_string (decimal a @ ''.'' @ decimal b @ ''.'' @ decimal c @ t @ [NUL]) =
     decimal a @ ''.'' @ decimal b @ ''.'' @ decimal c @ c_string t"
proof -
  have "NUL \<notin> set (decimal a @ ''.'' @ decimal b @ ''.'' @ decimal c)"
    by (simp add: decimal_no_NUL) (simp add: NUL_def)
  then show ?thesis
    using c_string_prefix [of "decimal a @ ''.'' @ decimal b @ ''.'' @ decimal c" "t @ [NUL]"]
    by (simp add: c_string_terminated)
qed



lemmas macro_defs =
  ZABBIX_VERSION_MAJOR_def ZABBIX_VERSION_MINOR_def ZABBIX_VERSION_PATCH_def
  ZABBIX_VERSION_RC_def ZABBIX_VERSION_RC_NUM_def ZABBIX_LICENSE_YEARS_def
  ZABBIX_VERSION_REVISION_def ifndef_define_def expand_identifier_def

lemmas eval_defs =
  ZBX_STR_def ZBX_STR2_def stringify_def trim_def
  string_value_def unescape_def backslash_def octal_digit_def emit_def char_of_0



lemma concat_literals_last:
  "concat_literals (xs @ [String_literal l]) = Some s \<Longrightarrow>
     \<exists>a b. unescape l = Some b \<and> s = a @ b"
proof (induction xs arbitrary: s)
  case Nil
  then show ?case by (auto split: option.splits)
next
  case (Cons t xs)
  show ?case
  proof (cases t)
    case (String_literal u)
    with Cons.prems obtain a r where "unescape u = Some a"
      and r: "concat_literals (xs @ [String_literal l]) = Some r" and s: "s = a @ r"
      by (auto split: option.splits)
    from Cons.IH [OF r] obtain a' b where "unescape l = Some b" "r = a' @ b" by blast
    with s show ?thesis by (intro exI [of _ "a @ a'"] exI [of _ b]) simp
  next
    case White_space
    with Cons show ?thesis by simp
  qed (use Cons.prems in simp_all)
qed

lemma string_value_last:
  assumes "string_value (xs @ [String_literal l]) = Some s" and "unescape l = Some b"
  shows "\<exists>a. s = a @ b"
proof -
  from assms(1) have "concat_literals (xs @ [String_literal l]) = Some s"
    by (simp add: string_value_def split: if_splits)
  from concat_literals_last [OF this] assms(2) show ?thesis by auto
qed

lemma file_version_ends_with_NUL:
  assumes "fileVersionString (resolve defs) \<bind> string_value = Some s"
  shows "\<exists>t. s = t @ [NUL]"
proof -
  from assms obtain ts where ts: "VER_FILEVERSION_STR defs = Some ts" and v: "string_value ts = Some s"
    by (auto simp: resolve_def split: bind_splits)
  from ts obtain xs where "ts = xs @ [String_literal [backslash, CHR ''0'']]"
    by (auto simp: VER_FILEVERSION_STR_def split: bind_splits)
  with v show ?thesis using string_value_last [OF _ unescape_NUL] by blast
qed

lemma product_version_ends_with_NUL:
  assumes "productVersionString (resolve defs) \<bind> string_value = Some s"
  shows "\<exists>t. s = t @ [NUL]"
proof -
  from assms obtain ts where ts: "VER_PRODUCTVERSION_STR defs = Some ts" and v: "string_value ts = Some s"
    by (auto simp: resolve_def split: bind_splits)
  from ts obtain a b c where "ts = (a @ [White_space, String_literal ''.'', White_space]
          @ b @ [White_space, String_literal ''.'', White_space]
          @ c @ [White_space] @ ZABBIX_VERSION_RC defs @ [White_space])
          @ [String_literal [backslash, CHR ''0'']]"
    by (auto simp: VER_PRODUCTVERSION_STR_def split: bind_splits)
  with v show ?thesis using string_value_last [OF _ unescape_NUL] by blast
qed

lemma legal_copyright_ends_with_company:
  assumes "string_value (legalCopyright (resolve defs)) = Some s"
  shows "\<exists>t. s = t @ ''Zabbix SIA'' @ [NUL]"
proof -
  have u: "unescape (''Zabbix SIA'' @ [backslash, CHR ''0'']) = Some (''Zabbix SIA'' @ [NUL])"
    by (rule unescape_terminated) (simp add: backslash_def)
  have "legalCopyright (resolve defs) =
      ([String_literal ''Copyright (C) '', White_space] @ ZABBIX_LICENSE_YEARS defs
        @ [White_space, String_literal '' '', White_space])
      @ [String_literal (''Zabbix SIA'' @ [backslash, CHR ''0''])]"
    by (simp add: resolve_def VER_LEGALCOPYRIGHT_STR_def VER_COMPANYNAME_STR_def)
  with assms show ?thesis using string_value_last [OF _ u] by metis
qed

lemma some_MAJOR:
  "ZABBIX_VERSION_MAJOR (define_some S k c) =
     (if ''ZABBIX_VERSION_MAJOR'' \<in> S then [PP_number (decimal (major c))]
      else [Punctuator ''{'', Identifier ''ZABBIX_VERSION_MAJOR'', Punctuator ''}''])"
  by (simp add: ZABBIX_VERSION_MAJOR_def ifndef_define_def define_some_def restrict_map_def
      define_components_def)

lemma some_MINOR:
  "ZABBIX_VERSION_MINOR (define_some S k c) =
     (if ''ZABBIX_VERSION_MINOR'' \<in> S then [PP_number (decimal (minor c))]
      else [Punctuator ''{'', Identifier ''ZABBIX_VERSION_MINOR'', Punctuator ''}''])"
  by (simp add: ZABBIX_VERSION_MINOR_def ifndef_define_def define_some_def restrict_map_def
      define_components_def)

lemma some_PATCH:
  "ZABBIX_VERSION_PATCH (define_some S k c) =
     (if ''ZABBIX_VERSION_PATCH'' \<in> S then [PP_number (decimal (patch c))]
      else [Punctuator ''{'', Identifier ''ZABBIX_VERSION_PATCH'', Punctuator ''}''])"
  by (simp add: ZABBIX_VERSION_PATCH_def ifndef_define_def define_some_def restrict_map_def
      define_components_def)

lemma some_RC:
  "ZABBIX_VERSION_RC (define_some S k c) =
     (if ''ZABBIX_VERSION_RC'' \<in> S
      then [String_literal (escape_quoted (releaseCandidateTag c))]
      else [Punctuator ''{'', Identifier ''ZABBIX_VERSION_RC'', Punctuator ''}''])"
  by (simp add: ZABBIX_VERSION_RC_def ifndef_define_def define_some_def restrict_map_def
      define_components_def)

lemma some_RC_NUM:
  "ZABBIX_VERSION_RC_NUM (define_some S k c) =
     (if ''ZABBIX_VERSION_RC_NUM'' \<in> S
      then [PP_number (decimal (releaseCandidateOrdinal c))]
      else [Punctuator ''{'']
           @ (case k of None \<Rightarrow> [Identifier ''ZABBIX_RC_NUM''] | Some n \<Rightarrow> [PP_number (decimal n)])
           @ [Punctuator ''}''])"
  by (simp add: ZABBIX_VERSION_RC_NUM_def ifndef_define_def expand_identifier_def
      define_some_def restrict_map_def define_components_def split: option.splits)

lemma some_LICENSE_YEARS:
  "ZABBIX_LICENSE_YEARS (define_some S k c) =
     (if ''ZABBIX_LICENSE_YEARS'' \<in> S
      then [String_literal (escape_quoted (licenseYears c))]
      else [Punctuator ''{'', Identifier ''ZABBIX_LICENSE_YEARS'', Punctuator ''}''])"
  by (simp add: ZABBIX_LICENSE_YEARS_def ifndef_define_def define_some_def restrict_map_def
      define_components_def)

lemma some_REVISION:
  "ZABBIX_VERSION_REVISION (define_some (insert ''ZABBIX_VERSION_REVISION'' S) k c) =
     [PP_number (decimal (revision c))]"
  by (simp add: ZABBIX_VERSION_REVISION_def expand_identifier_def define_some_def
      restrict_map_def define_components_def)

lemma ZBX_STR_placeholder:
  "ZBX_STR [Punctuator ''{'', Identifier n, Punctuator ''}''] =
     Some [String_literal (''{'' @ n @ ''}'')]"
  by (simp add: ZBX_STR_def ZBX_STR2_def stringify_def trim_def)

lemma unescape_placeholders:
  "unescape ''{ZABBIX_VERSION_MAJOR}'' = Some ''{ZABBIX_VERSION_MAJOR}''"
  "unescape ''{ZABBIX_VERSION_MINOR}'' = Some ''{ZABBIX_VERSION_MINOR}''"
  "unescape ''{ZABBIX_VERSION_PATCH}'' = Some ''{ZABBIX_VERSION_PATCH}''"
  by (simp_all add: unescape_def unescape_plain backslash_def)

lemma file_version_some:
  "fileVersionString (resolve (define_some (insert ''ZABBIX_VERSION_REVISION'' S) k c))
     \<bind> string_value =
   Some ((if ''ZABBIX_VERSION_MAJOR'' \<in> S then decimal (major c) else ''{ZABBIX_VERSION_MAJOR}'')
         @ ''.''
         @ (if ''ZABBIX_VERSION_MINOR'' \<in> S then decimal (minor c) else ''{ZABBIX_VERSION_MINOR}'')
         @ ''.''
         @ (if ''ZABBIX_VERSION_PATCH'' \<in> S then decimal (patch c) else ''{ZABBIX_VERSION_PATCH}'')
         @ ''.'' @ decimal (revision c) @ [NUL])"
  using ZBX_STR_placeholder [of "''ZABBIX_VERSION_MAJOR''"]
    ZBX_STR_placeholder [of "''ZABBIX_VERSION_MINOR''"]
    ZBX_STR_placeholder [of "''ZABBIX_VERSION_PATCH''"]
  by (simp add: resolve_def VER_FILEVERSION_STR_def some_MAJOR some_MINOR some_PATCH
      some_REVISION ZBX_STR_number string_value_def unescape_dot unescape_NUL unescape_decimal
      unescape_placeholders)

lemma numeric_file_version_some:
  "numericFileVersion (resolve (define_some S k c)) =
     (if ''ZABBIX_VERSION_MAJOR'' \<in> S then [PP_number (decimal (major c))]
      else [Punctuator ''{'', Identifier ''ZABBIX_VERSION_MAJOR'', Punctuator ''}''])
     @ [Punctuator '','']
     @ (if ''ZABBIX_VERSION_MINOR'' \<in> S then [PP_number (decimal (minor c))]
        else [Punctuator ''{'', Identifier ''ZABBIX_VERSION_MINOR'', Punctuator ''}''])
     @ [Punctuator '','']
     @ (if ''ZABBIX_VERSION_PATCH'' \<in> S then [PP_number (decimal (patch c))]
        else [Punctuator ''{'', Identifier ''ZABBIX_VERSION_PATCH'', Punctuator ''}''])
     @ [Punctuator '','']
     @ (if ''ZABBIX_VERSION_RC_NUM'' \<in> S then [PP_number (decimal (releaseCandidateOrdinal c))]
        else [Punctuator ''{'']
             @ (case k of None \<Rightarrow> [Identifier ''ZABBIX_RC_NUM'']
                | Some n \<Rightarrow> [PP_number (decimal n)])
             @ [Punctuator ''}''])"
  by (simp only: resolve_def VersionDescriptor.simps VER_FILEVERSION_def some_MAJOR some_MINOR
      some_PATCH some_RC_NUM)

lemma product_version_tokens_some:
  "productVersionString (resolve (define_some S k c)) =
     Some ([String_literal
              (if ''ZABBIX_VERSION_MAJOR'' \<in> S then decimal (major c)
               else ''{ZABBIX_VERSION_MAJOR}''),
            White_space, String_literal ''.'', White_space,
            String_literal
              (if ''ZABBIX_VERSION_MINOR'' \<in> S then decimal (minor c)
               else ''{ZABBIX_VERSION_MINOR}''),
            White_space, String_literal ''.'', White_space,
            String_literal
              (if ''ZABBIX_VERSION_PATCH'' \<in> S then decimal (patch c)
               else ''{ZABBIX_VERSION_PATCH}''),
            White_space]
           @ (if ''ZABBIX_VERSION_RC'' \<in> S
              then [String_literal (escape_quoted (releaseCandidateTag c))]
              else [Punctuator ''{'', Identifier ''ZABBIX_VERSION_RC'', Punctuator ''}''])
           @ [White_space, String_literal [backslash, CHR ''0'']])"
  using ZBX_STR_placeholder [of "''ZABBIX_VERSION_MAJOR''"]
    ZBX_STR_placeholder [of "''ZABBIX_VERSION_MINOR''"]
    ZBX_STR_placeholder [of "''ZABBIX_VERSION_PATCH''"]
  by (simp add: resolve_def VER_PRODUCTVERSION_STR_def some_MAJOR some_MINOR some_PATCH
      some_RC ZBX_STR_number)

lemma product_version_value_some:
  "''ZABBIX_VERSION_RC'' \<in> S \<Longrightarrow>
   productVersionString (resolve (define_some S k c)) \<bind> string_value =
     Some ((if ''ZABBIX_VERSION_MAJOR'' \<in> S then decimal (major c)
            else ''{ZABBIX_VERSION_MAJOR}'')
           @ ''.''
           @ (if ''ZABBIX_VERSION_MINOR'' \<in> S then decimal (minor c)
              else ''{ZABBIX_VERSION_MINOR}'')
           @ ''.''
           @ (if ''ZABBIX_VERSION_PATCH'' \<in> S then decimal (patch c)
              else ''{ZABBIX_VERSION_PATCH}'')
           @ releaseCandidateTag c @ [NUL])"
  by (simp add: product_version_tokens_some string_value_def unescape_dot unescape_NUL
      unescape_decimal unescape_placeholders unescape_quoted)

lemma legal_copyright_tokens_some:
  "legalCopyright (resolve (define_some S k c)) =
     [String_literal ''Copyright (C) '', White_space]
     @ (if ''ZABBIX_LICENSE_YEARS'' \<in> S
        then [String_literal (escape_quoted (licenseYears c))]
        else [Punctuator ''{'', Identifier ''ZABBIX_LICENSE_YEARS'', Punctuator ''}''])
     @ [White_space, String_literal '' '', White_space,
        String_literal (''Zabbix SIA'' @ [backslash, CHR ''0''])]"
  by (simp add: resolve_def VER_LEGALCOPYRIGHT_STR_def VER_COMPANYNAME_STR_def
      some_LICENSE_YEARS)

lemma legal_copyright_value_some:
  "''ZABBIX_LICENSE_YEARS'' \<in> S \<Longrightarrow>
   string_value (legalCopyright (resolve (define_some S k c))) =
     Some (''Copyright (C) '' @ licenseYears c @ '' Zabbix SIA'' @ [NUL])"
  using unescape_terminated [of "''Zabbix SIA''"]
  by (simp add: legal_copyright_tokens_some string_value_def unescape_copyright unescape_blank
      unescape_quoted backslash_def)

lemma numeric_MAJOR:
  "ZABBIX_VERSION_MAJOR (define_numeric a b p r k c) =
     (case numeric_definition a of
        None \<Rightarrow> [Punctuator ''{'', Identifier ''ZABBIX_VERSION_MAJOR'', Punctuator ''}'']
      | Some v \<Rightarrow> v)"
  by (simp add: ZABBIX_VERSION_MAJOR_def ifndef_define_def define_numeric_def)

lemma numeric_MINOR:
  "ZABBIX_VERSION_MINOR (define_numeric a b p r k c) =
     (case numeric_definition b of
        None \<Rightarrow> [Punctuator ''{'', Identifier ''ZABBIX_VERSION_MINOR'', Punctuator ''}'']
      | Some v \<Rightarrow> v)"
  by (simp add: ZABBIX_VERSION_MINOR_def ifndef_define_def define_numeric_def)

lemma numeric_PATCH:
  "ZABBIX_VERSION_PATCH (define_numeric a b p r k c) =
     (case numeric_definition p of
        None \<Rightarrow> [Punctuator ''{'', Identifier ''ZABBIX_VERSION_PATCH'', Punctuator ''}'']
      | Some v \<Rightarrow> v)"
  by (simp add: ZABBIX_VERSION_PATCH_def ifndef_define_def define_numeric_def)

lemma numeric_RC_NUM:
  "ZABBIX_VERSION_RC_NUM (define_numeric a b p r k c) =
     (case numeric_definition r of
        None \<Rightarrow> [Punctuator ''{'']
                @ (case k of None \<Rightarrow> [Identifier ''ZABBIX_RC_NUM'']
                   | Some n \<Rightarrow> [PP_number (decimal n)])
                @ [Punctuator ''}'']
      | Some v \<Rightarrow> v)"
  by (simp add: ZABBIX_VERSION_RC_NUM_def ifndef_define_def expand_identifier_def
      define_numeric_def split: option.splits)

lemma numeric_REVISION:
  "ZABBIX_VERSION_REVISION (define_numeric a b p r k c) = [PP_number (decimal (revision c))]"
  by (simp add: ZABBIX_VERSION_REVISION_def expand_identifier_def define_numeric_def
      define_components_def)

lemma numeric_RC:
  "ZABBIX_VERSION_RC (define_numeric a b p r k c) =
     [String_literal (escape_quoted (releaseCandidateTag c))]"
  by (simp add: ZABBIX_VERSION_RC_def ifndef_define_def define_numeric_def
      define_components_def)

lemma ZBX_STR_numeric:
  assumes "d = ''{'' @ name @ ''}''"
  shows "ZBX_STR (case numeric_definition x of
              None \<Rightarrow> [Punctuator ''{'', Identifier name, Punctuator ''}'']
            | Some v \<Rightarrow> v) =
     Some [String_literal (case as_written x of None \<Rightarrow> d | Some t \<Rightarrow> t)]"
  using assms by (cases x) (simp_all add: ZBX_STR_def ZBX_STR2_def stringify_def trim_def)

lemma ZBX_STR_numeric_components:
  "ZBX_STR (case numeric_definition x of
              None \<Rightarrow> [Punctuator ''{'', Identifier ''ZABBIX_VERSION_MAJOR'', Punctuator ''}'']
            | Some v \<Rightarrow> v) =
     Some [String_literal (case as_written x of None \<Rightarrow> ''{ZABBIX_VERSION_MAJOR}'' | Some t \<Rightarrow> t)]"
  "ZBX_STR (case numeric_definition x of
              None \<Rightarrow> [Punctuator ''{'', Identifier ''ZABBIX_VERSION_MINOR'', Punctuator ''}'']
            | Some v \<Rightarrow> v) =
     Some [String_literal (case as_written x of None \<Rightarrow> ''{ZABBIX_VERSION_MINOR}'' | Some t \<Rightarrow> t)]"
  "ZBX_STR (case numeric_definition x of
              None \<Rightarrow> [Punctuator ''{'', Identifier ''ZABBIX_VERSION_PATCH'', Punctuator ''}'']
            | Some v \<Rightarrow> v) =
     Some [String_literal (case as_written x of None \<Rightarrow> ''{ZABBIX_VERSION_PATCH}'' | Some t \<Rightarrow> t)]"
  by (rule ZBX_STR_numeric, simp)+

lemma unescape_as_written:
  assumes "unescape d = Some d"
  shows "unescape (case as_written x of None \<Rightarrow> d | Some t \<Rightarrow> t) =
     Some (case as_written x of None \<Rightarrow> d | Some t \<Rightarrow> t)"
proof (cases x)
  case Absent
  with assms show ?thesis by simp
next
  case (Number n)
  then show ?thesis by (simp add: unescape_decimal)
next
  case (Negative n)
  have "backslash \<notin> set (''-'' @ decimal n)"
    using decimal_no_backslash [of n] by (simp add: backslash_def)
  with Negative show ?thesis by (simp add: unescape_def unescape_plain del: append.simps)
next
  case (Fraction n m)
  have "backslash \<notin> set (decimal n @ ''.'' @ decimal m)"
    using decimal_no_backslash [of n] decimal_no_backslash [of m] by (simp add: backslash_def)
  with Fraction show ?thesis by (simp add: unescape_def unescape_plain del: append.simps)
qed

lemma file_version_numeric:
  "fileVersionString (resolve (define_numeric a b p r k c)) \<bind> string_value =
     Some ((case as_written a of None \<Rightarrow> ''{ZABBIX_VERSION_MAJOR}'' | Some t \<Rightarrow> t) @ ''.''
           @ (case as_written b of None \<Rightarrow> ''{ZABBIX_VERSION_MINOR}'' | Some t \<Rightarrow> t) @ ''.''
           @ (case as_written p of None \<Rightarrow> ''{ZABBIX_VERSION_PATCH}'' | Some t \<Rightarrow> t) @ ''.''
           @ decimal (revision c) @ [NUL])"
  using unescape_as_written [where x = a, OF unescape_placeholders(1)]
    unescape_as_written [where x = b, OF unescape_placeholders(2)]
    unescape_as_written [where x = p, OF unescape_placeholders(3)]
  by (simp add: resolve_def VER_FILEVERSION_STR_def numeric_MAJOR numeric_MINOR numeric_PATCH
      numeric_REVISION ZBX_STR_number ZBX_STR_numeric_components string_value_def unescape_dot unescape_NUL
      unescape_decimal)

lemma product_version_numeric:
  "productVersionString (resolve (define_numeric a b p r k c)) \<bind> string_value =
     Some ((case as_written a of None \<Rightarrow> ''{ZABBIX_VERSION_MAJOR}'' | Some t \<Rightarrow> t) @ ''.''
           @ (case as_written b of None \<Rightarrow> ''{ZABBIX_VERSION_MINOR}'' | Some t \<Rightarrow> t) @ ''.''
           @ (case as_written p of None \<Rightarrow> ''{ZABBIX_VERSION_PATCH}'' | Some t \<Rightarrow> t)
           @ releaseCandidateTag c @ [NUL])"
  using unescape_as_written [where x = a, OF unescape_placeholders(1)]
    unescape_as_written [where x = b, OF unescape_placeholders(2)]
    unescape_as_written [where x = p, OF unescape_placeholders(3)]
  by (simp add: resolve_def VER_PRODUCTVERSION_STR_def numeric_MAJOR numeric_MINOR numeric_PATCH
      numeric_RC ZBX_STR_number ZBX_STR_numeric_components string_value_def unescape_dot unescape_NUL unescape_quoted)

lemma numeric_file_version_numeric:
  "numericFileVersion (resolve (define_numeric a b p r k c)) =
     (case numeric_definition a of
        None \<Rightarrow> [Punctuator ''{'', Identifier ''ZABBIX_VERSION_MAJOR'', Punctuator ''}'']
      | Some v \<Rightarrow> v)
     @ [Punctuator '','']
     @ (case numeric_definition b of
          None \<Rightarrow> [Punctuator ''{'', Identifier ''ZABBIX_VERSION_MINOR'', Punctuator ''}'']
        | Some v \<Rightarrow> v)
     @ [Punctuator '','']
     @ (case numeric_definition p of
          None \<Rightarrow> [Punctuator ''{'', Identifier ''ZABBIX_VERSION_PATCH'', Punctuator ''}'']
        | Some v \<Rightarrow> v)
     @ [Punctuator '','']
     @ (case numeric_definition r of
          None \<Rightarrow> [Punctuator ''{'']
                  @ (case k of None \<Rightarrow> [Identifier ''ZABBIX_RC_NUM'']
                     | Some n \<Rightarrow> [PP_number (decimal n)])
                  @ [Punctuator ''}'']
        | Some v \<Rightarrow> v)"
  by (simp only: resolve_def VersionDescriptor.simps VER_FILEVERSION_def numeric_MAJOR
      numeric_MINOR numeric_PATCH numeric_RC_NUM)

lemma resolve_with_other_macros:
  "resolve (others ++ define_components c) = resolve (define_components c)"
proof -
  have "ZABBIX_VERSION_MAJOR (others ++ define_components c) =
      ZABBIX_VERSION_MAJOR (define_components c)"
    and "ZABBIX_VERSION_MINOR (others ++ define_components c) =
      ZABBIX_VERSION_MINOR (define_components c)"
    and "ZABBIX_VERSION_PATCH (others ++ define_components c) =
      ZABBIX_VERSION_PATCH (define_components c)"
    and "ZABBIX_VERSION_REVISION (others ++ define_components c) =
      ZABBIX_VERSION_REVISION (define_components c)"
    and "ZABBIX_VERSION_RC (others ++ define_components c) =
      ZABBIX_VERSION_RC (define_components c)"
    and "ZABBIX_VERSION_RC_NUM (others ++ define_components c) =
      ZABBIX_VERSION_RC_NUM (define_components c)"
    and "ZABBIX_LICENSE_YEARS (others ++ define_components c) =
      ZABBIX_LICENSE_YEARS (define_components c)"
    by (simp_all add: macro_defs map_add_def define_components_def)
  then show ?thesis
    by (simp add: resolve_def VER_FILEVERSION_def VER_PRODUCTVERSION_def VER_FILEVERSION_STR_def
        VER_PRODUCTVERSION_STR_def VER_LEGALCOPYRIGHT_STR_def)
qed

subsection \<open>The preprocessor functions at work\<close>

text \<open>
  Stringification drops white space at both ends, keeps one blank for each run of white
  space inside, and puts a backslash before the quotes and backslashes of a string
  literal.
\<close>

lemma stringify_white_space:
  "stringify [White_space, Punctuator ''-'', White_space, White_space, PP_number ''1'',
              White_space] = ''- 1''"
  by (simp add: stringify_def trim_def)

lemma stringify_string_literal:
  "stringify [String_literal [CHR ''a'', backslash, CHR ''n'']] =
     [backslash, double_quote, CHR ''a'', backslash, backslash, CHR ''n'', backslash,
      double_quote]"
  by (simp add: stringify_def trim_def escape_quoted_def backslash_def double_quote_def)

text \<open>
  The argument of \<^verbatim>\<open>ZBX_STR2\<close>: parentheses that match are part of it, commas
  inside them as well; an unmatched right parenthesis ends it early and stays behind the
  string with the parenthesis of the replacement list; a comma outside parentheses and an
  unmatched left parenthesis give no result.
\<close>

lemma ZBX_STR_parenthesised:
  "ZBX_STR [Punctuator ''('', Punctuator ''-'', PP_number ''1'', Punctuator '','',
            PP_number ''2'', Punctuator '')''] = Some [String_literal ''(-1,2)'']"
  by (simp add: ZBX_STR_def ZBX_STR2_def stringify_def trim_def)

lemma ZBX_STR_unmatched_right_parenthesis:
  "ZBX_STR [Punctuator '')''] = Some [String_literal [], Punctuator '')'']"
  "ZBX_STR [PP_number ''1'', Punctuator '')'', PP_number ''2''] =
     Some [String_literal ''1'', PP_number ''2'', Punctuator '')'']"
  by (simp_all add: ZBX_STR_def ZBX_STR2_def stringify_def trim_def)

lemma ZBX_STR_comma:
  "ZBX_STR [PP_number ''1'', Punctuator '','', PP_number ''2''] = None"
  by (simp add: ZBX_STR_def)

lemma ZBX_STR_unmatched_left_parenthesis:
  "ZBX_STR [Punctuator ''('', PP_number ''1''] = None"
  by (simp add: ZBX_STR_def)

text \<open>With the include guard defined the header defines nothing.\<close>

lemma resource_h_guarded: "resource_h (defs(''_RESOURCE_H_'' \<mapsto> body)) = None"
  by (simp add: resource_h_def)

lemma resource_h_first_reading:
  "resource_h (define_components c) = Some (resolve (define_components c))"
  by (simp add: resource_h_def define_components_def)

section \<open>The claims\<close>

text \<open>
  Claim C1. With every component defined, the file version string, read as a C string, is
  exactly \<open>major.minor.patch.revision\<close>: the four numbers in decimal, in this order,
  with a dot between them. Split at the dots it has exactly four segments, and they read
  as the integers major, minor, patch and revision. The array of characters itself is this
  text followed by the null character of the literal \<^verbatim>\<open>"\0"\<close> that ends the macro.
\<close>

theorem file_version_string_dotted:
  "fileVersionString (resolve (define_components c)) \<bind> string_value =
     Some (decimal (major c) @ ''.'' @ decimal (minor c) @ ''.'' @ decimal (patch c) @ ''.''
           @ decimal (revision c) @ [NUL])
   \<and> map_option c_string (fileVersionString (resolve (define_components c)) \<bind> string_value) =
     Some (decimal (major c) @ ''.'' @ decimal (minor c) @ ''.'' @ decimal (patch c) @ ''.''
           @ decimal (revision c))
   \<and> map_option (map decimal_value \<circ> split_on (CHR ''.'') \<circ> c_string)
       (fileVersionString (resolve (define_components c)) \<bind> string_value) =
     Some [Some (major c), Some (minor c), Some (patch c), Some (revision c)]"
  using dotted4_c_string [of "major c" "minor c" "patch c" "revision c"]
    dotted4_segments [of "major c" "minor c" "patch c" "revision c"]
  by (simp add: resolve_def file_version_value decimal_value_decimal)

theorem file_version_string_dotted_witness:
  "map_option c_string
     (fileVersionString (resolve (define_components
        \<lparr> major = 12, minor = 0, patch = 305, releaseCandidateTag = ''beta2'',
          releaseCandidateOrdinal = 2, revision = 4711, licenseYears = ''2001-2025'' \<rparr>))
      \<bind> string_value) = Some ''12.0.305.4711''"
  using file_version_string_dotted [of "\<lparr> major = 12, minor = 0, patch = 305, releaseCandidateTag = ''beta2'',
          releaseCandidateOrdinal = 2, revision = 4711, licenseYears = ''2001-2025'' \<rparr>"]
  by (simp add: decimal.simps c_string_def NUL_def)

text \<open>
  Claim C2. With every component defined, the product version string is
  \<open>major.minor.patch\<close> followed at once by the release candidate tag: nothing stands
  between the patch number and the tag, and the characters of the tag are those that were
  given. An empty tag adds nothing; the tag \<open>rc1\<close> gives \<open>7.4.0rc1\<close>. As for the file
  version, the array of characters ends with the null character of \<^verbatim>\<open>"\0"\<close>, and
  the C string is the text before the first null character.
\<close>

theorem product_version_string_tag_appended:
  "productVersionString (resolve (define_components c)) \<bind> string_value =
     Some (decimal (major c) @ ''.'' @ decimal (minor c) @ ''.'' @ decimal (patch c)
           @ releaseCandidateTag c @ [NUL])
   \<and> map_option c_string (productVersionString (resolve (define_components c)) \<bind> string_value) =
     Some (decimal (major c) @ ''.'' @ decimal (minor c) @ ''.'' @ decimal (patch c)
           @ c_string (releaseCandidateTag c))"
  using dotted3_c_string [of "major c" "minor c" "patch c" "releaseCandidateTag c"]
  by (simp add: resolve_def product_version_value)

theorem product_version_string_tag_appended_witness:
  "map_option c_string
     (productVersionString (resolve (define_components
        \<lparr> major = 7, minor = 4, patch = 0, releaseCandidateTag = ''rc1'',
          releaseCandidateOrdinal = 1, revision = 0, licenseYears = ''2001-2025'' \<rparr>))
      \<bind> string_value) = Some ''7.4.0rc1''
   \<and> map_option c_string
     (productVersionString (resolve (define_components
        \<lparr> major = 7, minor = 4, patch = 0, releaseCandidateTag = '''',
          releaseCandidateOrdinal = 0, revision = 0, licenseYears = ''2001-2025'' \<rparr>))
      \<bind> string_value) = Some ''7.4.0''"
  using
    product_version_string_tag_appended
      [of "\<lparr> major = 7, minor = 4, patch = 0, releaseCandidateTag = ''rc1'',
             releaseCandidateOrdinal = 1, revision = 0, licenseYears = ''2001-2025'' \<rparr>"]
    product_version_string_tag_appended
      [of "\<lparr> major = 7, minor = 4, patch = 0, releaseCandidateTag = '''',
             releaseCandidateOrdinal = 0, revision = 0, licenseYears = ''2001-2025'' \<rparr>"]
  by (simp add: decimal.simps c_string_def NUL_def)

text \<open>
  Claim C3. With every component defined, the numeric file version is the four tokens
  major, minor, patch and release candidate ordinal, in this order and separated by
  commas, and the numeric product version is the three tokens major, minor and patch: each
  number is the number that was given, at its position.
\<close>

theorem numeric_versions_direct_mapping:
  "numericFileVersion (resolve (define_components c)) =
     [PP_number (decimal (major c)), Punctuator '','',
      PP_number (decimal (minor c)), Punctuator '','',
      PP_number (decimal (patch c)), Punctuator '','',
      PP_number (decimal (releaseCandidateOrdinal c))]
   \<and> numeric_tuple (numericFileVersion (resolve (define_components c))) =
     Some [major c, minor c, patch c, releaseCandidateOrdinal c]
   \<and> numericProductVersion (resolve (define_components c)) =
     [PP_number (decimal (major c)), Punctuator '','',
      PP_number (decimal (minor c)), Punctuator '','',
      PP_number (decimal (patch c))]
   \<and> numeric_tuple (numericProductVersion (resolve (define_components c))) =
     Some [major c, minor c, patch c]"
  by (simp add: resolve_def VER_FILEVERSION_def VER_PRODUCTVERSION_def defined_MAJOR
      defined_MINOR defined_PATCH defined_RC_NUM decimal_value_decimal)

theorem numeric_versions_direct_mapping_witness:
  "numeric_tuple (numericFileVersion (resolve (define_components
        \<lparr> major = 7, minor = 4, patch = 0, releaseCandidateTag = ''rc1'',
          releaseCandidateOrdinal = 1, revision = 9, licenseYears = ''2001-2025'' \<rparr>)))
     = Some [7, 4, 0, 1]
   \<and> numeric_tuple (numericProductVersion (resolve (define_components
        \<lparr> major = 7, minor = 4, patch = 0, releaseCandidateTag = ''rc1'',
          releaseCandidateOrdinal = 1, revision = 9, licenseYears = ''2001-2025'' \<rparr>)))
     = Some [7, 4, 0]"
  using numeric_versions_direct_mapping [of "\<lparr> major = 7, minor = 4, patch = 0, releaseCandidateTag = ''rc1'',
          releaseCandidateOrdinal = 1, revision = 9, licenseYears = ''2001-2025'' \<rparr>"]
  by (simp add: decimal.simps decimal_value_def digit_value_def)

text \<open>
  Claim C4 as stated fails for the revision: the header has an \<^verbatim>\<open>#ifndef\<close> block
  with a replacement list of its own for major, minor, patch, release candidate tag,
  release candidate ordinal and license years, and none for
  \<^verbatim>\<open>ZABBIX_VERSION_REVISION\<close>. With the revision left undefined and all the rest
  defined, no built-in value takes its place: the name itself stays and is stringified
  into the file version string.
\<close>

theorem revision_has_no_default_counterexample:
  "[''ZABBIX_VERSION_MAJOR'' \<mapsto> [PP_number ''7''],
    ''ZABBIX_VERSION_MINOR'' \<mapsto> [PP_number ''2''],
    ''ZABBIX_VERSION_PATCH'' \<mapsto> [PP_number ''5''],
    ''ZABBIX_VERSION_RC'' \<mapsto> [String_literal ''''],
    ''ZABBIX_VERSION_RC_NUM'' \<mapsto> [PP_number ''0''],
    ''ZABBIX_LICENSE_YEARS'' \<mapsto> [String_literal ''2001-2025'']] ''ZABBIX_VERSION_REVISION'' = None
   \<and> ZABBIX_VERSION_REVISION
       [''ZABBIX_VERSION_MAJOR'' \<mapsto> [PP_number ''7''],
        ''ZABBIX_VERSION_MINOR'' \<mapsto> [PP_number ''2''],
        ''ZABBIX_VERSION_PATCH'' \<mapsto> [PP_number ''5''],
        ''ZABBIX_VERSION_RC'' \<mapsto> [String_literal ''''],
        ''ZABBIX_VERSION_RC_NUM'' \<mapsto> [PP_number ''0''],
        ''ZABBIX_LICENSE_YEARS'' \<mapsto> [String_literal ''2001-2025'']]
     = [Identifier ''ZABBIX_VERSION_REVISION'']
   \<and> fileVersionString (resolve
       [''ZABBIX_VERSION_MAJOR'' \<mapsto> [PP_number ''7''],
        ''ZABBIX_VERSION_MINOR'' \<mapsto> [PP_number ''2''],
        ''ZABBIX_VERSION_PATCH'' \<mapsto> [PP_number ''5''],
        ''ZABBIX_VERSION_RC'' \<mapsto> [String_literal ''''],
        ''ZABBIX_VERSION_RC_NUM'' \<mapsto> [PP_number ''0''],
        ''ZABBIX_LICENSE_YEARS'' \<mapsto> [String_literal ''2001-2025'']]) \<bind> string_value
     = Some (''7.2.5.ZABBIX_VERSION_REVISION'' @ [NUL])"
  by (simp add: resolve_def VER_FILEVERSION_STR_def ZABBIX_VERSION_MAJOR_def
      ZABBIX_VERSION_MINOR_def ZABBIX_VERSION_PATCH_def ZABBIX_VERSION_REVISION_def
      ifndef_define_def expand_identifier_def ZBX_STR_def ZBX_STR2_def stringify_def trim_def
      string_value_def unescape_def backslash_def octal_digit_def emit_def char_of_0)

text \<open>
  Claim C4, amended. Let a build define any of the components, as a number or as a string
  literal. For each of major, minor, patch, release candidate tag, release candidate
  ordinal and license years, the descriptor reproduces the value exactly where the build
  has defined it, and never the header's own; where the build has not, it holds the
  header's built-in placeholder: the macro's own name in braces, and for the release
  candidate ordinal \<^verbatim>\<open>{ZABBIX_RC_NUM}\<close>, in which \<^verbatim>\<open>ZABBIX_RC_NUM\<close> is replaced in
  turn when it is defined. A revision that the build has defined is reproduced exactly as
  well; the header has no built-in placeholder for the revision.
\<close>

theorem define_once_if_absent:
  "numericFileVersion (resolve (define_some bound rc_num c)) =
     (if ''ZABBIX_VERSION_MAJOR'' \<in> bound then [PP_number (decimal (major c))]
      else [Punctuator ''{'', Identifier ''ZABBIX_VERSION_MAJOR'', Punctuator ''}''])
     @ [Punctuator '','']
     @ (if ''ZABBIX_VERSION_MINOR'' \<in> bound then [PP_number (decimal (minor c))]
        else [Punctuator ''{'', Identifier ''ZABBIX_VERSION_MINOR'', Punctuator ''}''])
     @ [Punctuator '','']
     @ (if ''ZABBIX_VERSION_PATCH'' \<in> bound then [PP_number (decimal (patch c))]
        else [Punctuator ''{'', Identifier ''ZABBIX_VERSION_PATCH'', Punctuator ''}''])
     @ [Punctuator '','']
     @ (if ''ZABBIX_VERSION_RC_NUM'' \<in> bound
        then [PP_number (decimal (releaseCandidateOrdinal c))]
        else [Punctuator ''{'']
             @ (case rc_num of None \<Rightarrow> [Identifier ''ZABBIX_RC_NUM'']
                | Some n \<Rightarrow> [PP_number (decimal n)])
             @ [Punctuator ''}''])
   \<and> fileVersionString
         (resolve (define_some (insert ''ZABBIX_VERSION_REVISION'' bound) rc_num c))
       \<bind> string_value =
     Some ((if ''ZABBIX_VERSION_MAJOR'' \<in> bound then decimal (major c)
            else ''{ZABBIX_VERSION_MAJOR}'')
           @ ''.''
           @ (if ''ZABBIX_VERSION_MINOR'' \<in> bound then decimal (minor c)
              else ''{ZABBIX_VERSION_MINOR}'')
           @ ''.''
           @ (if ''ZABBIX_VERSION_PATCH'' \<in> bound then decimal (patch c)
              else ''{ZABBIX_VERSION_PATCH}'')
           @ ''.'' @ decimal (revision c) @ [NUL])
   \<and> productVersionString (resolve (define_some bound rc_num c)) =
     Some ([String_literal
              (if ''ZABBIX_VERSION_MAJOR'' \<in> bound then decimal (major c)
               else ''{ZABBIX_VERSION_MAJOR}''),
            White_space, String_literal ''.'', White_space,
            String_literal
              (if ''ZABBIX_VERSION_MINOR'' \<in> bound then decimal (minor c)
               else ''{ZABBIX_VERSION_MINOR}''),
            White_space, String_literal ''.'', White_space,
            String_literal
              (if ''ZABBIX_VERSION_PATCH'' \<in> bound then decimal (patch c)
               else ''{ZABBIX_VERSION_PATCH}''),
            White_space]
           @ (if ''ZABBIX_VERSION_RC'' \<in> bound
              then [String_literal (escape_quoted (releaseCandidateTag c))]
              else [Punctuator ''{'', Identifier ''ZABBIX_VERSION_RC'', Punctuator ''}''])
           @ [White_space, String_literal [backslash, CHR ''0'']])
   \<and> productVersionString
         (resolve (define_some (insert ''ZABBIX_VERSION_RC'' bound) rc_num c))
       \<bind> string_value =
     Some ((if ''ZABBIX_VERSION_MAJOR'' \<in> bound then decimal (major c)
            else ''{ZABBIX_VERSION_MAJOR}'')
           @ ''.''
           @ (if ''ZABBIX_VERSION_MINOR'' \<in> bound then decimal (minor c)
              else ''{ZABBIX_VERSION_MINOR}'')
           @ ''.''
           @ (if ''ZABBIX_VERSION_PATCH'' \<in> bound then decimal (patch c)
              else ''{ZABBIX_VERSION_PATCH}'')
           @ releaseCandidateTag c @ [NUL])
   \<and> legalCopyright (resolve (define_some bound rc_num c)) =
     [String_literal ''Copyright (C) '', White_space]
     @ (if ''ZABBIX_LICENSE_YEARS'' \<in> bound
        then [String_literal (escape_quoted (licenseYears c))]
        else [Punctuator ''{'', Identifier ''ZABBIX_LICENSE_YEARS'', Punctuator ''}''])
     @ [White_space, String_literal '' '', White_space,
        String_literal (''Zabbix SIA'' @ [backslash, CHR ''0''])]
   \<and> string_value
         (legalCopyright (resolve (define_some (insert ''ZABBIX_LICENSE_YEARS'' bound) rc_num c))) =
     Some (''Copyright (C) '' @ licenseYears c @ '' Zabbix SIA'' @ [NUL])"
proof -
  have "productVersionString
         (resolve (define_some (insert ''ZABBIX_VERSION_RC'' bound) rc_num c))
       \<bind> string_value =
     Some ((if ''ZABBIX_VERSION_MAJOR'' \<in> bound then decimal (major c)
            else ''{ZABBIX_VERSION_MAJOR}'')
           @ ''.''
           @ (if ''ZABBIX_VERSION_MINOR'' \<in> bound then decimal (minor c)
              else ''{ZABBIX_VERSION_MINOR}'')
           @ ''.''
           @ (if ''ZABBIX_VERSION_PATCH'' \<in> bound then decimal (patch c)
              else ''{ZABBIX_VERSION_PATCH}'')
           @ releaseCandidateTag c @ [NUL])"
    using product_version_value_some [of "insert ''ZABBIX_VERSION_RC'' bound" rc_num c]
    by simp
  moreover have "string_value
         (legalCopyright (resolve (define_some (insert ''ZABBIX_LICENSE_YEARS'' bound) rc_num c))) =
     Some (''Copyright (C) '' @ licenseYears c @ '' Zabbix SIA'' @ [NUL])"
    by (rule legal_copyright_value_some) simp
  ultimately show ?thesis
    using numeric_file_version_some [of bound rc_num c] file_version_some [of bound rc_num c]
      product_version_tokens_some [of bound rc_num c] legal_copyright_tokens_some [of bound rc_num c]
    by blast
qed

theorem define_once_if_absent_witness:
  "numericFileVersion (resolve (define_some {''ZABBIX_VERSION_MAJOR''} (Some 4)
        \<lparr> major = 7, minor = 2, patch = 5, releaseCandidateTag = ''rc1'',
          releaseCandidateOrdinal = 1, revision = 3, licenseYears = ''2001-2025'' \<rparr>)) =
     [PP_number ''7'', Punctuator '','',
      Punctuator ''{'', Identifier ''ZABBIX_VERSION_MINOR'', Punctuator ''}'', Punctuator '','',
      Punctuator ''{'', Identifier ''ZABBIX_VERSION_PATCH'', Punctuator ''}'', Punctuator '','',
      Punctuator ''{'', PP_number ''4'', Punctuator ''}'']
   \<and> fileVersionString
         (resolve (define_some {''ZABBIX_VERSION_REVISION'', ''ZABBIX_VERSION_MAJOR''} (Some 4)
            \<lparr> major = 7, minor = 2, patch = 5, releaseCandidateTag = ''rc1'',
              releaseCandidateOrdinal = 1, revision = 3, licenseYears = ''2001-2025'' \<rparr>))
       \<bind> string_value =
     Some (''7.{ZABBIX_VERSION_MINOR}.{ZABBIX_VERSION_PATCH}.3'' @ [NUL])
   \<and> productVersionString
         (resolve (define_some {''ZABBIX_VERSION_RC'', ''ZABBIX_VERSION_MAJOR''} (Some 4)
            \<lparr> major = 7, minor = 2, patch = 5, releaseCandidateTag = ''rc1'',
              releaseCandidateOrdinal = 1, revision = 3, licenseYears = ''2001-2025'' \<rparr>))
       \<bind> string_value =
     Some (''7.{ZABBIX_VERSION_MINOR}.{ZABBIX_VERSION_PATCH}rc1'' @ [NUL])
   \<and> string_value
         (legalCopyright
            (resolve (define_some {''ZABBIX_LICENSE_YEARS'', ''ZABBIX_VERSION_MAJOR''} (Some 4)
               \<lparr> major = 7, minor = 2, patch = 5, releaseCandidateTag = ''rc1'',
                 releaseCandidateOrdinal = 1, revision = 3, licenseYears = ''2001-2025'' \<rparr>))) =
     Some (''Copyright (C) 2001-2025 Zabbix SIA'' @ [NUL])"
  using define_once_if_absent
    [of "{''ZABBIX_VERSION_MAJOR''}" "Some 4"
        "\<lparr> major = 7, minor = 2, patch = 5, releaseCandidateTag = ''rc1'',
           releaseCandidateOrdinal = 1, revision = 3, licenseYears = ''2001-2025'' \<rparr>"]
  by (simp add: decimal.simps)

text \<open>
  Claim C5 as stated fails: the header validates nothing and has no error of any kind for
  a component. With major undefined the placeholder is put in its place without notice,
  and the file version string is \<open>{ZABBIX_VERSION_MAJOR}.2.5.3\<close>. With major defined as
  \<open>-1\<close> both the numeric file version and the file version string are produced, with
  \<open>-1\<close> in them, and with major defined as \<open>1.5\<close> the file version string is
  \<open>1.5.2.5.3\<close>.
\<close>

theorem invalid_component_not_rejected_counterexample:
  "fileVersionString (resolve
       [''ZABBIX_VERSION_MINOR'' \<mapsto> [PP_number ''2''],
        ''ZABBIX_VERSION_PATCH'' \<mapsto> [PP_number ''5''],
        ''ZABBIX_VERSION_REVISION'' \<mapsto> [PP_number ''3''],
        ''ZABBIX_VERSION_RC'' \<mapsto> [String_literal ''''],
        ''ZABBIX_VERSION_RC_NUM'' \<mapsto> [PP_number ''0''],
        ''ZABBIX_LICENSE_YEARS'' \<mapsto> [String_literal ''2001-2025'']]) \<bind> string_value
     = Some (''{ZABBIX_VERSION_MAJOR}.2.5.3'' @ [NUL])
   \<and> numericFileVersion (resolve
       [''ZABBIX_VERSION_MAJOR'' \<mapsto> [Punctuator ''-'', PP_number ''1''],
        ''ZABBIX_VERSION_MINOR'' \<mapsto> [PP_number ''2''],
        ''ZABBIX_VERSION_PATCH'' \<mapsto> [PP_number ''5''],
        ''ZABBIX_VERSION_REVISION'' \<mapsto> [PP_number ''3''],
        ''ZABBIX_VERSION_RC'' \<mapsto> [String_literal ''''],
        ''ZABBIX_VERSION_RC_NUM'' \<mapsto> [PP_number ''0''],
        ''ZABBIX_LICENSE_YEARS'' \<mapsto> [String_literal ''2001-2025'']])
     = [Punctuator ''-'', PP_number ''1'', Punctuator '','', PP_number ''2'', Punctuator '','',
        PP_number ''5'', Punctuator '','', PP_number ''0'']
   \<and> fileVersionString (resolve
       [''ZABBIX_VERSION_MAJOR'' \<mapsto> [Punctuator ''-'', PP_number ''1''],
        ''ZABBIX_VERSION_MINOR'' \<mapsto> [PP_number ''2''],
        ''ZABBIX_VERSION_PATCH'' \<mapsto> [PP_number ''5''],
        ''ZABBIX_VERSION_REVISION'' \<mapsto> [PP_number ''3''],
        ''ZABBIX_VERSION_RC'' \<mapsto> [String_literal ''''],
        ''ZABBIX_VERSION_RC_NUM'' \<mapsto> [PP_number ''0''],
        ''ZABBIX_LICENSE_YEARS'' \<mapsto> [String_literal ''2001-2025'']]) \<bind> string_value
     = Some (''-1.2.5.3'' @ [NUL])
   \<and> fileVersionString (resolve
       [''ZABBIX_VERSION_MAJOR'' \<mapsto> [PP_number ''1.5''],
        ''ZABBIX_VERSION_MINOR'' \<mapsto> [PP_number ''2''],
        ''ZABBIX_VERSION_PATCH'' \<mapsto> [PP_number ''5''],
        ''ZABBIX_VERSION_REVISION'' \<mapsto> [PP_number ''3''],
        ''ZABBIX_VERSION_RC'' \<mapsto> [String_literal ''''],
        ''ZABBIX_VERSION_RC_NUM'' \<mapsto> [PP_number ''0''],
        ''ZABBIX_LICENSE_YEARS'' \<mapsto> [String_literal ''2001-2025'']]) \<bind> string_value
     = Some (''1.5.2.5.3'' @ [NUL])"
  by (simp add: resolve_def VER_FILEVERSION_STR_def VER_FILEVERSION_def macro_defs eval_defs)

text \<open>
  Claim C5, amended. Resolution has no \<open>InvalidComponent\<close> failure and validates no
  component. Whether major, minor, patch and release candidate ordinal are each absent,
  negative, with a fraction or a valid number, a descriptor is produced. An absent
  component is replaced by its built-in placeholder (for the release candidate ordinal
  \<^verbatim>\<open>{ZABBIX_RC_NUM}\<close>, in which \<^verbatim>\<open>ZABBIX_RC_NUM\<close> is replaced in turn when it is
  defined); a negative number and a number with a fraction are taken over as they were
  written, into the numeric file version and into both version strings.
\<close>

theorem no_component_validation:
  "numericFileVersion (resolve (define_numeric a b p r k c)) =
     (case numeric_definition a of
        None \<Rightarrow> [Punctuator ''{'', Identifier ''ZABBIX_VERSION_MAJOR'', Punctuator ''}'']
      | Some v \<Rightarrow> v)
     @ [Punctuator '','']
     @ (case numeric_definition b of
          None \<Rightarrow> [Punctuator ''{'', Identifier ''ZABBIX_VERSION_MINOR'', Punctuator ''}'']
        | Some v \<Rightarrow> v)
     @ [Punctuator '','']
     @ (case numeric_definition p of
          None \<Rightarrow> [Punctuator ''{'', Identifier ''ZABBIX_VERSION_PATCH'', Punctuator ''}'']
        | Some v \<Rightarrow> v)
     @ [Punctuator '','']
     @ (case numeric_definition r of
          None \<Rightarrow> [Punctuator ''{'']
                  @ (case k of None \<Rightarrow> [Identifier ''ZABBIX_RC_NUM'']
                     | Some n \<Rightarrow> [PP_number (decimal n)])
                  @ [Punctuator ''}'']
        | Some v \<Rightarrow> v)
   \<and> fileVersionString (resolve (define_numeric a b p r k c)) \<bind> string_value =
     Some ((case as_written a of None \<Rightarrow> ''{ZABBIX_VERSION_MAJOR}'' | Some t \<Rightarrow> t) @ ''.''
           @ (case as_written b of None \<Rightarrow> ''{ZABBIX_VERSION_MINOR}'' | Some t \<Rightarrow> t) @ ''.''
           @ (case as_written p of None \<Rightarrow> ''{ZABBIX_VERSION_PATCH}'' | Some t \<Rightarrow> t) @ ''.''
           @ decimal (revision c) @ [NUL])
   \<and> productVersionString (resolve (define_numeric a b p r k c)) \<bind> string_value =
     Some ((case as_written a of None \<Rightarrow> ''{ZABBIX_VERSION_MAJOR}'' | Some t \<Rightarrow> t) @ ''.''
           @ (case as_written b of None \<Rightarrow> ''{ZABBIX_VERSION_MINOR}'' | Some t \<Rightarrow> t) @ ''.''
           @ (case as_written p of None \<Rightarrow> ''{ZABBIX_VERSION_PATCH}'' | Some t \<Rightarrow> t)
           @ releaseCandidateTag c @ [NUL])"
  using numeric_file_version_numeric [of a b p r k c] file_version_numeric [of a b p r k c]
    product_version_numeric [of a b p r k c]
  by blast

theorem no_component_validation_witness:
  "numericFileVersion (resolve (define_numeric (Negative 1) (Fraction 1 5) Absent Absent (Some 3)
        \<lparr> major = 7, minor = 2, patch = 5, releaseCandidateTag = ''rc1'',
          releaseCandidateOrdinal = 1, revision = 3, licenseYears = ''2001-2025'' \<rparr>)) =
     [Punctuator ''-'', PP_number ''1'', Punctuator '','', PP_number ''1.5'', Punctuator '','',
      Punctuator ''{'', Identifier ''ZABBIX_VERSION_PATCH'', Punctuator ''}'', Punctuator '','',
      Punctuator ''{'', PP_number ''3'', Punctuator ''}'']
   \<and> fileVersionString (resolve (define_numeric (Negative 1) (Fraction 1 5) Absent Absent (Some 3)
        \<lparr> major = 7, minor = 2, patch = 5, releaseCandidateTag = ''rc1'',
          releaseCandidateOrdinal = 1, revision = 3, licenseYears = ''2001-2025'' \<rparr>))
       \<bind> string_value =
     Some (''-1.1.5.{ZABBIX_VERSION_PATCH}.3'' @ [NUL])
   \<and> productVersionString (resolve (define_numeric (Negative 1) (Fraction 1 5) Absent Absent (Some 3)
        \<lparr> major = 7, minor = 2, patch = 5, releaseCandidateTag = ''rc1'',
          releaseCandidateOrdinal = 1, revision = 3, licenseYears = ''2001-2025'' \<rparr>))
       \<bind> string_value =
     Some (''-1.1.5.{ZABBIX_VERSION_PATCH}rc1'' @ [NUL])"
  using no_component_validation
    [of "Negative 1" "Fraction 1 5" Absent Absent "Some 3"
        "\<lparr> major = 7, minor = 2, patch = 5, releaseCandidateTag = ''rc1'',
           releaseCandidateOrdinal = 1, revision = 3, licenseYears = ''2001-2025'' \<rparr>"]
  by (simp add: decimal.simps)




text \<open>
  Claim C7. With every component defined, the legal copyright is the fixed text
  \<open>Copyright (C)\<close>, a blank, the license years exactly as given (whatever their
  characters), a blank, and the company name \<open>Zabbix SIA\<close> with its null character:
  the years are neither checked nor computed.
\<close>

theorem legal_copyright_years_verbatim:
  "string_value (companyName (resolve (define_components c))) = Some (''Zabbix SIA'' @ [NUL])
   \<and> string_value (legalCopyright (resolve (define_components c))) =
       Some (''Copyright (C) '' @ licenseYears c @ '' '' @ ''Zabbix SIA'' @ [NUL])"
  by (simp add: resolve_def legal_copyright_value company_name_value)

theorem legal_copyright_years_verbatim_witness:
  "string_value (legalCopyright (resolve (define_components
        \<lparr> major = 7, minor = 2, patch = 5, releaseCandidateTag = '''',
          releaseCandidateOrdinal = 0, revision = 3, licenseYears = ''1999-20xx (tbc)'' \<rparr>)))
     = Some (''Copyright (C) 1999-20xx (tbc) Zabbix SIA'' @ [NUL])"
  using legal_copyright_years_verbatim [of "\<lparr> major = 7, minor = 2, patch = 5, releaseCandidateTag = '''',
          releaseCandidateOrdinal = 0, revision = 3, licenseYears = ''1999-20xx (tbc)'' \<rparr>"]
  by simp

text \<open>
  Claim C8. The descriptor is determined by the version components alone. Whatever other
  macros are defined when the header is read, as long as none of them has a name of the
  header's version macros or of its include guard, the header yields the descriptor of the
  components: two readings with the same components give the same descriptor, equal in
  every field, in any two such surroundings.
\<close>

theorem descriptor_determined_by_components:
  assumes "dom others \<inter> set version_macros = {}"
    and "dom others' \<inter> set version_macros = {}"
  shows "resource_h (others ++ define_components c) = Some (resolve (define_components c))
    \<and> resource_h (others ++ define_components c) = resource_h (others' ++ define_components c)"
proof -
  have guard: "define_components c ''_RESOURCE_H_'' = None"
    by (simp add: define_components_def)
  from assms have "others ''_RESOURCE_H_'' = None" and "others' ''_RESOURCE_H_'' = None"
    by (auto simp: version_macros_def)
  with guard have "(others ++ define_components c) ''_RESOURCE_H_'' = None"
    and "(others' ++ define_components c) ''_RESOURCE_H_'' = None"
    by (simp_all add: map_add_def)
  then show ?thesis
    by (simp add: resource_h_def resolve_with_other_macros)
qed

theorem descriptor_determined_by_components_witness:
  "resource_h ([''APSTUDIO_INVOKED'' \<mapsto> []] ++ define_components
        \<lparr> major = 7, minor = 2, patch = 5, releaseCandidateTag = ''rc1'',
          releaseCandidateOrdinal = 1, revision = 3, licenseYears = ''2001-2025'' \<rparr>) =
   resource_h ([''ZABBIX_RC_NUM'' \<mapsto> [PP_number ''9''], ''UNICODE'' \<mapsto> []] ++ define_components
        \<lparr> major = 7, minor = 2, patch = 5, releaseCandidateTag = ''rc1'',
          releaseCandidateOrdinal = 1, revision = 3, licenseYears = ''2001-2025'' \<rparr>)
   \<and> resource_h ([''APSTUDIO_INVOKED'' \<mapsto> []] ++ define_components
        \<lparr> major = 7, minor = 2, patch = 5, releaseCandidateTag = ''rc1'',
          releaseCandidateOrdinal = 1, revision = 3, licenseYears = ''2001-2025'' \<rparr>) =
     Some (resolve (define_components
        \<lparr> major = 7, minor = 2, patch = 5, releaseCandidateTag = ''rc1'',
          releaseCandidateOrdinal = 1, revision = 3, licenseYears = ''2001-2025'' \<rparr>))"
proof -
  have one: "dom [''APSTUDIO_INVOKED'' \<mapsto> ([] :: pp_token list)] \<inter> set version_macros = {}"
    by (simp add: version_macros_def)
  have other: "dom [''ZABBIX_RC_NUM'' \<mapsto> [PP_number ''9''], ''UNICODE'' \<mapsto> []]
      \<inter> set version_macros = {}"
    by (simp add: version_macros_def)
  from descriptor_determined_by_components
    [OF one other,
     of "\<lparr> major = 7, minor = 2, patch = 5, releaseCandidateTag = ''rc1'',
           releaseCandidateOrdinal = 1, revision = 3, licenseYears = ''2001-2025'' \<rparr>"]
  show ?thesis by blast
qed

text \<open>
  Claim C9. For major 7, minor 2, patch 5, revision 3, an empty release candidate tag,
  release candidate ordinal 0 and license years \<open>2001-2025\<close>, the file version string
  is \<open>7.2.5.3\<close>, the product version string is \<open>7.2.5\<close>, the numeric file version is
  (7, 2, 5, 0), and the legal copyright contains \<open>2001-2025\<close>: it is
  \<open>Copyright (C) 2001-2025 Zabbix SIA\<close>. The strings are read as C strings; the array
  of the file version string is \<open>7.2.5.3\<close> followed by a null character.
\<close>

theorem example_7_2_5_3:
  "fileVersionString (resolve (define_components
        \<lparr> major = 7, minor = 2, patch = 5, releaseCandidateTag = '''',
          releaseCandidateOrdinal = 0, revision = 3, licenseYears = ''2001-2025'' \<rparr>))
     \<bind> string_value = Some (''7.2.5.3'' @ [NUL])
   \<and> map_option c_string (fileVersionString (resolve (define_components
        \<lparr> major = 7, minor = 2, patch = 5, releaseCandidateTag = '''',
          releaseCandidateOrdinal = 0, revision = 3, licenseYears = ''2001-2025'' \<rparr>))
     \<bind> string_value) = Some ''7.2.5.3''
   \<and> map_option c_string (productVersionString (resolve (define_components
        \<lparr> major = 7, minor = 2, patch = 5, releaseCandidateTag = '''',
          releaseCandidateOrdinal = 0, revision = 3, licenseYears = ''2001-2025'' \<rparr>))
     \<bind> string_value) = Some ''7.2.5''
   \<and> numeric_tuple (numericFileVersion (resolve (define_components
        \<lparr> major = 7, minor = 2, patch = 5, releaseCandidateTag = '''',
          releaseCandidateOrdinal = 0, revision = 3, licenseYears = ''2001-2025'' \<rparr>)))
     = Some [7, 2, 5, 0]
   \<and> map_option c_string (string_value (legalCopyright (resolve (define_components
        \<lparr> major = 7, minor = 2, patch = 5, releaseCandidateTag = '''',
          releaseCandidateOrdinal = 0, revision = 3, licenseYears = ''2001-2025'' \<rparr>))))
     = Some (''Copyright (C) '' @ ''2001-2025'' @ '' Zabbix SIA'')"
  by (simp add: resolve_def file_version_value product_version_value legal_copyright_value
      VER_FILEVERSION_def defined_MAJOR defined_MINOR defined_PATCH defined_RC_NUM
      decimal.simps decimal_value_def digit_value_def c_string_def NUL_def)

text \<open>
  Claim C10. With every component defined, each of the five strings (file version,
  product version, company name, product name, legal copyright) is its visible text
  followed by one null character, the one written as \<^verbatim>\<open>\0\<close> at the end of the
  macro; the legal copyright has it from the company name literal at its end. The null
  character does not depend on the components: with any macro table, a version string that
  is a string at all ends with it, and a legal copyright that is a string ends with the
  company name and its null character.
\<close>

theorem strings_end_with_NUL:
  "fileVersionString (resolve (define_components c)) \<bind> string_value =
     Some ((decimal (major c) @ ''.'' @ decimal (minor c) @ ''.'' @ decimal (patch c) @ ''.''
           @ decimal (revision c)) @ [NUL])
   \<and> productVersionString (resolve (define_components c)) \<bind> string_value =
     Some ((decimal (major c) @ ''.'' @ decimal (minor c) @ ''.'' @ decimal (patch c)
           @ releaseCandidateTag c) @ [NUL])
   \<and> string_value (companyName (resolve (define_components c))) = Some (''Zabbix SIA'' @ [NUL])
   \<and> string_value (productName (resolve (define_components c))) = Some (''Zabbix'' @ [NUL])
   \<and> string_value (legalCopyright (resolve (define_components c))) =
       Some ((''Copyright (C) '' @ licenseYears c @ '' Zabbix SIA'') @ [NUL])
   \<and> (fileVersionString (resolve defs) \<bind> string_value = Some s
        \<longrightarrow> (\<exists>t. s = t @ [NUL]))
   \<and> (productVersionString (resolve defs) \<bind> string_value = Some s
        \<longrightarrow> (\<exists>t. s = t @ [NUL]))
   \<and> (string_value (legalCopyright (resolve defs)) = Some s
        \<longrightarrow> (\<exists>t. s = t @ ''Zabbix SIA'' @ [NUL]))"
proof -
  have "fileVersionString (resolve (define_components c)) \<bind> string_value =
     Some ((decimal (major c) @ ''.'' @ decimal (minor c) @ ''.'' @ decimal (patch c) @ ''.''
           @ decimal (revision c)) @ [NUL])"
    by (simp add: resolve_def file_version_value)
  moreover have "productVersionString (resolve (define_components c)) \<bind> string_value =
     Some ((decimal (major c) @ ''.'' @ decimal (minor c) @ ''.'' @ decimal (patch c)
           @ releaseCandidateTag c) @ [NUL])"
    by (simp add: resolve_def product_version_value)
  moreover have "string_value (companyName (resolve (define_components c))) =
      Some (''Zabbix SIA'' @ [NUL])"
    by (simp add: resolve_def company_name_value)
  moreover have "string_value (productName (resolve (define_components c))) =
      Some (''Zabbix'' @ [NUL])"
    by (simp add: resolve_def product_name_value)
  moreover have "string_value (legalCopyright (resolve (define_components c))) =
       Some ((''Copyright (C) '' @ licenseYears c @ '' Zabbix SIA'') @ [NUL])"
    by (simp add: resolve_def legal_copyright_value)
  ultimately show ?thesis
    using file_version_ends_with_NUL [of defs s] product_version_ends_with_NUL [of defs s]
      legal_copyright_ends_with_company [of defs s]
    by blast
qed

theorem strings_end_with_NUL_witness:
  "productVersionString (resolve (define_components
        \<lparr> major = 7, minor = 4, patch = 0, releaseCandidateTag = ''rc1'',
          releaseCandidateOrdinal = 1, revision = 0, licenseYears = ''2001-2025'' \<rparr>))
     \<bind> string_value = Some (''7.4.0rc1'' @ [NUL])
   \<and> string_value (legalCopyright (resolve (define_components
        \<lparr> major = 7, minor = 4, patch = 0, releaseCandidateTag = ''rc1'',
          releaseCandidateOrdinal = 1, revision = 0, licenseYears = ''2001-2025'' \<rparr>)))
     = Some (''Copyright (C) 2001-2025 Zabbix SIA'' @ [NUL])"
  using strings_end_with_NUL
    [of "\<lparr> major = 7, minor = 4, patch = 0, releaseCandidateTag = ''rc1'',
           releaseCandidateOrdinal = 1, revision = 0, licenseYears = ''2001-2025'' \<rparr>"
        Map.empty "[]"]
  by (simp add: decimal.simps)

end
